theory Spec2Isabelle
  imports Complex_Main "HOL-Library.Char_ord" "HOL-Library.List_Lexorder"
begin

chapter \<open>The model\<close>

section \<open>Shared data model\<close>

text \<open>
  Python floats are modelled as real numbers, and an arithmetic statement is then about
  the exact value of the expression the source writes. The one exception is \<open>create_bid\<close>,
  whose behaviour depends on rounding: it computes with the doubles of the next section.
  Exceptions are values of the type \<open>py_error\<close>.
\<close>

datatype py_error = KeyError | IndexError | ZeroDivisionError | ValueError | OtherError

text \<open>
  A candidate window, as the forecaster builds it (a dict with these six keys).
\<close>

record window =
  start_hour :: int
  w_region :: string
  avg_price :: real
  avg_carbon :: real
  score :: real
  confidence :: real

text \<open>
  \<open>ComputeJob\<close> (models/job.py is imported by every module): only the fields that the
  code under study reads or writes. \<open>preferred_region\<close> is \<open>None\<close> or a string,
  \<open>deadline\<close> a clock reading in microseconds;
  \<open>preferred_windows\<close> is the attribute the orchestrator assigns.
\<close>

record ComputeJob =
  job_id :: string
  job_name :: string
  job_type :: string
  priority :: int
  energy_kwh :: real
  power_mw :: real
  duration_hours :: real
  can_defer :: bool
  can_interrupt :: bool
  flexibility_minutes :: real
  deadline :: int
  preferred_region :: "string option"
  preferred_windows :: "window list"
  status :: string

section \<open>IEEE doubles\<close>

text \<open>
  Where a property depends on rounding, underflow or overflow, a Python float is a value
  of \<open>pyfloat\<close>: a finite double (given by its real value), an infinity or NaN. The sign
  of zero is not kept; \<open>-0.0\<close> compares equal to \<open>0.0\<close> everywhere in the code modelled.
  \<open>to_double\<close> rounds a real result to binary64, to nearest with ties to even: the
  spacing \<open>ulp\<close> of the doubles around \<open>x\<close> is \<open>2\<close> to the power \<open>e - 52\<close> for the exponent
  \<open>e\<close> of \<open>x\<close>, and \<open>2\<close> to the power \<open>-1074\<close> in the subnormal range; a result that rounds
  to \<open>2\<close> to the power \<open>1024\<close> or beyond is an infinity.
\<close>

datatype pyfloat = Fin real | PInf | NInf | NaN










section \<open>Flexibility bid valuator (optimization/p415\_bidder.py)\<close>

text \<open>
  A market event is a dict read with \<open>get\<close>: a missing key is \<open>None\<close> here, and the
  defaults of the source (\<open>0\<close> for the price, \<open>30\<close> for the duration) are applied where the
  source applies them.
\<close>

record grid_event =
  product :: "string option"
  clearing_price :: "real option"
  duration_minutes :: "real option"

record bid =
  bid_id :: string
  bid_job_id :: string
  bid_product :: string
  bid_power_mw :: real
  bid_duration_minutes :: real
  bid_price :: pyfloat
  expected_revenue :: pyfloat
  bid_timestamp :: string

record P415BidEngine =
  revenue_share :: real
  active_bids :: "bid list"

definition products :: "string list" where
  "products = [''DC'', ''DM'', ''DR'']"

definition new_engine :: "real \<Rightarrow> P415BidEngine" where
  "new_engine share = \<lparr>revenue_share = share, active_bids = []\<rparr>"

definition default_engine :: P415BidEngine where
  "default_engine = new_engine (1 / 10)"

definition get_clearing_price :: "grid_event \<Rightarrow> real" where
  "get_clearing_price ev = (case clearing_price ev of None \<Rightarrow> 0 | Some p \<Rightarrow> p)"

definition get_duration_minutes :: "grid_event \<Rightarrow> real" where
  "get_duration_minutes ev = (case duration_minutes ev of None \<Rightarrow> 30 | Some d \<Rightarrow> d)"

text \<open>
  The eligibility chain of \<open>calculate_flexibility_value\<close>: \<open>None\<close> stands for the early
  \<open>return 0.0\<close>, \<open>Some m\<close> for the revenue multiplier the branch selects.
\<close>

definition revenue_multiplier :: "ComputeJob \<Rightarrow> grid_event \<Rightarrow> real option" where
  "revenue_multiplier job ev =
     (case product ev of
        None \<Rightarrow> None
      | Some p \<Rightarrow>
          if p \<notin> set products then None
          else if p = ''DC'' then
            (if \<not> can_interrupt job then None else Some (8 / 10))
          else if p = ''DM'' then
            (if \<not> can_defer job \<or> flexibility_minutes job < 5 then None else Some (5 / 10))
          else if p = ''DR'' then
            (if \<not> can_defer job then None else Some (3 / 10))
          else None)"

definition calculate_flexibility_value ::
  "P415BidEngine \<Rightarrow> ComputeJob \<Rightarrow> int \<Rightarrow> grid_event \<Rightarrow> real" where
  "calculate_flexibility_value eng job time_window ev =
     (case revenue_multiplier job ev of
        None \<Rightarrow> 0
      | Some m \<Rightarrow>
          let duration_hours = get_duration_minutes ev / 60;
              revenue = get_clearing_price ev * power_mw job * duration_hours * m;
              platform_revenue = revenue * revenue_share eng
          in revenue - platform_revenue)"




text \<open>
  The eligibility table as the specification words it (section 4.3), to be compared with
  the chain of the source.
\<close>

datatype product_class = Fast | Medium | Slow

definition product_class_of :: "grid_event \<Rightarrow> product_class option" where
  "product_class_of ev =
     (if product ev = Some ''DC'' then Some Fast
      else if product ev = Some ''DM'' then Some Medium
      else if product ev = Some ''DR'' then Some Slow
      else None)"

definition spec_eligible :: "ComputeJob \<Rightarrow> grid_event \<Rightarrow> bool" where
  "spec_eligible job ev =
     (case product_class_of ev of
        None \<Rightarrow> False
      | Some Fast \<Rightarrow> can_interrupt job
      | Some Medium \<Rightarrow> can_defer job \<and> flexibility_minutes job \<ge> 5
      | Some Slow \<Rightarrow> can_defer job)"

definition spec_multiplier :: "grid_event \<Rightarrow> real" where
  "spec_multiplier ev =
     (case product_class_of ev of
        Some Fast \<Rightarrow> 8 / 10
      | Some Medium \<Rightarrow> 5 / 10
      | Some Slow \<Rightarrow> 3 / 10
      | None \<Rightarrow> 0)"

text \<open>Concrete inputs used below.\<close>

definition sample_job :: ComputeJob where
  "sample_job = \<lparr>job_id = ''job_00001'', job_name = ''Training #1'', job_type = ''training'',
     priority = 7, energy_kwh = 150, power_mw = 2, duration_hours = 3,
     can_defer = True, can_interrupt = True, flexibility_minutes = 240,
     deadline = 43200000000, preferred_region = Some ''north'', preferred_windows = [], status = ''pending''\<rparr>"

definition rigid_job :: ComputeJob where
  "rigid_job = sample_job\<lparr>can_defer := False, can_interrupt := False\<rparr>"

definition interrupt_only_job :: ComputeJob where
  "interrupt_only_job = sample_job\<lparr>can_defer := False\<rparr>"

definition dc_event :: grid_event where
  "dc_event = \<lparr>product = Some ''DC'', clearing_price = Some 150, duration_minutes = Some 30\<rparr>"





definition dm_event :: grid_event where
  "dm_event = \<lparr>product = Some ''DM'', clearing_price = Some 80, duration_minutes = Some 90\<rparr>"

definition dr_late_event :: grid_event where
  "dr_late_event = \<lparr>product = Some ''DR'', clearing_price = Some 40, duration_minutes = None\<rparr>"

definition dr_event :: grid_event where
  "dr_event = \<lparr>product = Some ''DR'', clearing_price = Some 150, duration_minutes = Some 30\<rparr>"

section \<open>FIFO fallback of the orchestrator (beckn/agents/orchestrator.py)\<close>

text \<open>
  The grid forecast is a dict; the code reads \<open>price\<close> and \<open>carbon\<close> by subscript
  (a missing key raises \<open>KeyError\<close>) and the other keys with \<open>get\<close>. Each entry is
  therefore optional here. A series is itself a dict from a region to its hourly values:
  an association list in insertion order, read with \<open>map_of\<close>.
\<close>

type_synonym series = "(string \<times> real list) list"

record grid_forecast =
  fc_price :: "series option"
  fc_carbon :: "series option"
  fc_p415_events :: "grid_event list option"
  fc_avg_price :: "real option"
  fc_avg_carbon :: "real option"
  fc_min_carbon_hour :: "(string \<times> nat \<times> real) list option"
  fc_min_price_hour :: "(string \<times> nat \<times> real) list option"
  fc_timestamp :: "string option"
  fc_horizon_hours :: "int option"

text \<open>
  One entry of a schedule. The two datetimes are clock readings (microseconds).
\<close>

record assignment =
  a_job :: ComputeJob
  start_time :: int
  start_datetime :: int
  end_datetime :: int
  region :: string
  cost :: real
  carbon :: real
  p415_revenue :: real
  baseline_cost :: real
  baseline_carbon :: real

text \<open>\<open>job.preferred_region or 'south'\<close>: \<open>None\<close> and the empty string are both falsy.\<close>

definition region_or_default :: "ComputeJob \<Rightarrow> string" where
  "region_or_default job =
     (case preferred_region job of
        None \<Rightarrow> ''south''
      | Some r \<Rightarrow> if r = [] then ''south'' else r)"

text \<open>
  \<open>series[region][0] if region in series and len(series[region]) > 0 else dflt\<close>
\<close>

definition hour0_or :: "series \<Rightarrow> string \<Rightarrow> real \<Rightarrow> real" where
  "hour0_or ser r dflt =
     (case map_of ser r of
        None \<Rightarrow> dflt
      | Some vs \<Rightarrow> (case vs of [] \<Rightarrow> dflt | v # _ \<Rightarrow> v))"

text \<open>
  The body of the loop of \<open>_fallback_schedule\<close> for the job at position \<open>k\<close>. The source
  calls \<open>datetime.now()\<close> twice for each job: \<open>clock n\<close> is the \<open>n\<close>-th reading.
\<close>

definition fallback_entry ::
  "(nat \<Rightarrow> int) \<Rightarrow> nat \<Rightarrow> ComputeJob \<Rightarrow> grid_forecast \<Rightarrow> py_error + assignment" where
  "fallback_entry clock k job fc =
     (let r = region_or_default job in
      case fc_price fc of
        None \<Rightarrow> Inl KeyError
      | Some prices \<Rightarrow>
          (case fc_carbon fc of
             None \<Rightarrow> Inl KeyError
           | Some carbons \<Rightarrow>
               let current_price = hour0_or prices r (15 / 100);
                   current_carbon = hour0_or carbons r 200
               in Inr \<lparr>a_job = job, start_time = 0,
                        start_datetime = clock (2 * k), end_datetime = clock (2 * k + 1),
                        region = r,
                        cost = energy_kwh job * current_price,
                        carbon = energy_kwh job * current_carbon,
                        p415_revenue = 0,
                        baseline_cost = energy_kwh job * (15 / 100),
                        baseline_carbon = energy_kwh job * 250\<rparr>))"

fun fallback_from ::
  "(nat \<Rightarrow> int) \<Rightarrow> nat \<Rightarrow> ComputeJob list \<Rightarrow> grid_forecast \<Rightarrow> py_error + assignment list" where
  "fallback_from clock k [] fc = Inr []"
| "fallback_from clock k (job # jobs) fc =
     (case fallback_entry clock k job fc of
        Inl e \<Rightarrow> Inl e
      | Inr a \<Rightarrow>
          (case fallback_from clock (Suc k) jobs fc of
             Inl e \<Rightarrow> Inl e
           | Inr rest \<Rightarrow> Inr (a # rest)))"

definition fallback_schedule ::
  "(nat \<Rightarrow> int) \<Rightarrow> ComputeJob list \<Rightarrow> grid_forecast \<Rightarrow> py_error + assignment list" where
  "fallback_schedule clock jobs fc = fallback_from clock 0 jobs fc"




text \<open>The fields of an assignment that claim C8 lists (the datetimes are left out).\<close>

definition assignment_figures ::
  "assignment \<Rightarrow> ComputeJob \<times> int \<times> string \<times> real \<times> real \<times> real \<times> real \<times> real" where
  "assignment_figures a =
     (a_job a, start_time a, region a, cost a, carbon a, p415_revenue a,
      baseline_cost a, baseline_carbon a)"

text \<open>Concrete inputs for the fallback.\<close>

definition sample_prices :: series where
  "sample_prices = [(''north'', [12 / 100, 30 / 100]), (''south'', [20 / 100, 6 / 100]),
                    (''scotland'', [10 / 100, 3 / 100])]"

definition sample_carbons :: series where
  "sample_carbons = [(''north'', [180, 300]), (''south'', [220, 100]),
                     (''scotland'', [90, 50])]"

definition sample_forecast :: grid_forecast where
  "sample_forecast = \<lparr>fc_price = Some sample_prices, fc_carbon = Some sample_carbons,
     fc_p415_events = Some [], fc_avg_price = Some (15 / 100), fc_avg_carbon = Some 200,
     fc_min_carbon_hour = Some [], fc_min_price_hour = Some [],
     fc_timestamp = Some ''2025-01-01T00:00:00'', fc_horizon_hours = Some 2\<rparr>"

definition roaming_job :: ComputeJob where
  "roaming_job = sample_job\<lparr>job_id := ''job_00002'', energy_kwh := 40, priority := 9,
     preferred_region := None\<rparr>"



section \<open>Forecast cache of the grid data ingestor (beckn/agents/grid\_data\_ingestor.py)\<close>

text \<open>
  Times are clock readings in microseconds, the resolution of \<open>datetime\<close>; a
  \<open>timedelta\<close> is a difference of two readings.
\<close>

record GridDataIngestor =
  last_forecast :: "grid_forecast option"
  last_update :: "int option"
  cache_duration :: int

definition new_ingestor :: "int \<Rightarrow> GridDataIngestor" where
  "new_ingestor cache_duration_minutes =
     \<lparr>last_forecast = None, last_update = None,
      cache_duration = cache_duration_minutes * 60000000\<rparr>"

definition default_ingestor :: GridDataIngestor where
  "default_ingestor = new_ingestor 5"

text \<open>Truth value of a dict: it has at least one key.\<close>

definition dict_nonempty :: "grid_forecast \<Rightarrow> bool" where
  "dict_nonempty fc =
     (fc_price fc \<noteq> None \<or> fc_carbon fc \<noteq> None \<or> fc_p415_events fc \<noteq> None
      \<or> fc_avg_price fc \<noteq> None \<or> fc_avg_carbon fc \<noteq> None
      \<or> fc_min_carbon_hour fc \<noteq> None \<or> fc_min_price_hour fc \<noteq> None
      \<or> fc_timestamp fc \<noteq> None \<or> fc_horizon_hours fc \<noteq> None)"

definition is_cache_valid :: "GridDataIngestor \<Rightarrow> int \<Rightarrow> bool" where
  "is_cache_valid st now =
     (case last_forecast st of
        None \<Rightarrow> False
      | Some fc \<Rightarrow>
          if \<not> dict_nonempty fc then False
          else (case last_update st of
                  None \<Rightarrow> False
                | Some t \<Rightarrow> now - t < cache_duration st))"

definition calculate_average :: "series \<Rightarrow> real" where
  "calculate_average data =
     (let all_values = concat (map snd data)
      in if all_values \<noteq> [] then sum_list all_values / real (length all_values) else 0)"

fun index_of :: "real \<Rightarrow> real list \<Rightarrow> nat" where
  "index_of x [] = 0"
| "index_of x (y # ys) = (if x = y then 0 else Suc (index_of x ys))"

definition min_of :: "real list \<Rightarrow> real" where
  "min_of vs = (case vs of [] \<Rightarrow> 0 | v # rest \<Rightarrow> fold min rest v)"

definition find_min_hour :: "series \<Rightarrow> (string \<times> nat \<times> real) list" where
  "find_min_hour data =
     map (\<lambda>(r, vs). (r, index_of (min_of vs) vs, min_of vs))
         (filter (\<lambda>(r, vs). vs \<noteq> []) data)"

text \<open>
  The collaborators of \<open>fetch_forecast\<close>: the two API clients and the event feed (each
  may raise), the two mock generators that replace a failed source, and the rendering of
  a clock reading.
\<close>

record data_sources =
  carbon_source :: "int \<Rightarrow> py_error + series"
  price_source :: "int \<Rightarrow> py_error + series"
  p415_source :: "int \<Rightarrow> py_error + grid_event list"
  mock_carbon :: "int \<Rightarrow> series"
  mock_prices :: "int \<Rightarrow> series"
  isoformat :: "int \<Rightarrow> string"

text \<open>
  \<open>fetch_forecast\<close> returns the forecast, the ingestor afterwards, and whether the fresh
  path ran. \<open>clock 0\<close> is the reading taken by \<open>_is_cache_valid\<close>, \<open>clock 1\<close> the one
  stored in the forecast and \<open>clock 2\<close> the one stored in \<open>last_update\<close>. The cached path
  returns \<open>self.last_forecast\<close> as it is. On typed data nothing inside the \<open>try\<close> raises
  past the per-source fallbacks, so the outer handler has no branch here.
\<close>

definition fetch_forecast ::
  "data_sources \<Rightarrow> GridDataIngestor \<Rightarrow> (nat \<Rightarrow> int) \<Rightarrow> int
     \<Rightarrow> grid_forecast option \<times> GridDataIngestor \<times> bool" where
  "fetch_forecast src st clock horizon_hours =
     (if is_cache_valid st (clock 0) then (last_forecast st, st, False)
      else
        let carbon_data = (case carbon_source src horizon_hours of
                             Inl e \<Rightarrow> mock_carbon src horizon_hours | Inr d \<Rightarrow> d);
            price_data = (case price_source src horizon_hours of
                            Inl e \<Rightarrow> mock_prices src horizon_hours | Inr d \<Rightarrow> d);
            p415_events = (case p415_source src horizon_hours of
                             Inl e \<Rightarrow> [] | Inr evs \<Rightarrow> evs);
            forecast = \<lparr>fc_price = Some price_data, fc_carbon = Some carbon_data,
                        fc_p415_events = Some p415_events,
                        fc_avg_price = Some (calculate_average price_data),
                        fc_avg_carbon = Some (calculate_average carbon_data),
                        fc_min_carbon_hour = Some (find_min_hour carbon_data),
                        fc_min_price_hour = Some (find_min_hour price_data),
                        fc_timestamp = Some (isoformat src (clock 1)),
                        fc_horizon_hours = Some horizon_hours\<rparr>
        in (Some forecast,
            st\<lparr>last_forecast := Some forecast, last_update := Some (clock 2)\<rparr>,
            True))"

definition clear_cache :: "GridDataIngestor \<Rightarrow> GridDataIngestor" where
  "clear_cache st = st\<lparr>last_forecast := None, last_update := None\<rparr>"

text \<open>Every cached forecast is a non-empty dict: an invariant of the ingestor.\<close>

definition cache_wf :: "GridDataIngestor \<Rightarrow> bool" where
  "cache_wf st = (case last_forecast st of None \<Rightarrow> True | Some fc \<Rightarrow> dict_nonempty fc)"

definition sample_sources :: data_sources where
  "sample_sources = \<lparr>carbon_source = (\<lambda>h. Inr sample_carbons),
     price_source = (\<lambda>h. Inl OtherError),
     p415_source = (\<lambda>h. Inr [dc_event]),
     mock_carbon = (\<lambda>h. []), mock_prices = (\<lambda>h. sample_prices),
     isoformat = (\<lambda>t. ''2025-01-01T00:00:00'')\<rparr>"

definition first_forecast :: grid_forecast where
  "first_forecast = \<lparr>fc_price = Some sample_prices, fc_carbon = Some sample_carbons,
     fc_p415_events = Some [dc_event],
     fc_avg_price = Some (calculate_average sample_prices),
     fc_avg_carbon = Some (calculate_average sample_carbons),
     fc_min_carbon_hour = Some (find_min_hour sample_carbons),
     fc_min_price_hour = Some (find_min_hour sample_prices),
     fc_timestamp = Some ''2025-01-01T00:00:00'',
     fc_horizon_hours = Some 24\<rparr>"

definition cached_ingestor :: GridDataIngestor where
  "cached_ingestor = default_ingestor\<lparr>last_forecast := Some first_forecast,
     last_update := Some 2\<rparr>"

definition later_clock :: "nat \<Rightarrow> int" where
  "later_clock n = 200000000 + int n"

definition expired_clock :: "nat \<Rightarrow> int" where
  "expired_clock n = 300000002 + int n"

section \<open>Transaction orchestrator (beckn/bap\_client.py)\<close>

text \<open>
  What one protocol request gives back to \<open>_execute_single_job\<close>: a response without an
  \<open>error\<close> key, a response with one (a non-200 status, a handled transport failure), or
  an exception that leaves the client call.
\<close>

datatype action = Search | Select | Init | Confirm

datatype reply = Ok | ErrorReply string | Raised py_error

record transaction =
  t_job :: ComputeJob
  t_transaction_id :: string
  t_scheduled :: assignment
  t_status :: string
  t_confirmed_at :: int

text \<open>
  The orchestrator's state is its dict \<open>active_transactions\<close>; \<open>requests_sent\<close> is the
  trace of the requests it has issued (action and transaction id), in order.
\<close>

record BecknOrchestrator =
  active_transactions :: "string \<rightharpoonup> transaction"
  requests_sent :: "(action \<times> string) list"

definition new_orchestrator :: BecknOrchestrator where
  "new_orchestrator = \<lparr>active_transactions = Map.empty, requests_sent = []\<rparr>"

definition order_id :: "string \<Rightarrow> string" where
  "order_id transaction_id = ''order_'' @ take 12 transaction_id"

definition send :: "action \<Rightarrow> string \<Rightarrow> BecknOrchestrator \<Rightarrow> BecknOrchestrator" where
  "send a tid st = st\<lparr>requests_sent := requests_sent st @ [(a, tid)]\<rparr>"

text \<open>
  \<open>_execute_single_job\<close> for the schedule entry at position \<open>k\<close>. \<open>net tid a\<close> is the
  counterparty's answer to request \<open>a\<close> of transaction \<open>tid\<close>, \<open>uuid k\<close> the transaction
  id drawn for the entry and \<open>clock k\<close> the reading at its confirmation. The result is
  the state afterwards and the exception that left the function, if any. As in the source,
  only the search and the confirm responses are inspected for an \<open>error\<close> key.
\<close>

definition execute_single_job ::
  "(string \<Rightarrow> action \<Rightarrow> reply) \<Rightarrow> (nat \<Rightarrow> string) \<Rightarrow> (nat \<Rightarrow> int) \<Rightarrow> nat
     \<Rightarrow> assignment \<Rightarrow> BecknOrchestrator \<Rightarrow> BecknOrchestrator \<times> py_error option" where
  "execute_single_job net uuid clock k scheduled_job st =
     (let job = a_job scheduled_job;
          transaction_id = uuid k;
          st1 = send Search transaction_id st
      in case net transaction_id Search of
           Raised e \<Rightarrow> (st1, Some e)
         | ErrorReply msg \<Rightarrow> (st1, None)
         | Ok \<Rightarrow>
             let st2 = send Select transaction_id st1
             in case net transaction_id Select of
                  Raised e \<Rightarrow> (st2, Some e)
                | _ \<Rightarrow>
                    let st3 = send Init transaction_id st2
                    in case net transaction_id Init of
                         Raised e \<Rightarrow> (st3, Some e)
                       | _ \<Rightarrow>
                           let st4 = send Confirm transaction_id st3
                           in case net transaction_id Confirm of
                                Raised e \<Rightarrow> (st4, Some e)
                              | ErrorReply msg \<Rightarrow> (st4, None)
                              | Ok \<Rightarrow>
                                  (st4\<lparr>active_transactions :=
                                     (active_transactions st4)(order_id transaction_id \<mapsto>
                                        \<lparr>t_job = job, t_transaction_id = transaction_id,
                                         t_scheduled = scheduled_job, t_status = ''CONFIRMED'',
                                         t_confirmed_at = clock k\<rparr>)\<rparr>, None))"

text \<open>
  \<open>execute_schedule\<close>: the loop over the schedule. The \<open>except Exception\<close> of the loop
  body prints and goes on to the next entry.
\<close>

fun execute_from ::
  "(string \<Rightarrow> action \<Rightarrow> reply) \<Rightarrow> (nat \<Rightarrow> string) \<Rightarrow> (nat \<Rightarrow> int) \<Rightarrow> nat
     \<Rightarrow> assignment list \<Rightarrow> BecknOrchestrator \<Rightarrow> BecknOrchestrator" where
  "execute_from net uuid clock k [] st = st"
| "execute_from net uuid clock k (scheduled_job # rest) st =
     (case execute_single_job net uuid clock k scheduled_job st of
        (st', None) \<Rightarrow> execute_from net uuid clock (Suc k) rest st'
      | (st', Some e) \<Rightarrow> execute_from net uuid clock (Suc k) rest st')"

definition execute_schedule ::
  "(string \<Rightarrow> action \<Rightarrow> reply) \<Rightarrow> (nat \<Rightarrow> string) \<Rightarrow> (nat \<Rightarrow> int)
     \<Rightarrow> assignment list \<Rightarrow> BecknOrchestrator \<Rightarrow> BecknOrchestrator" where
  "execute_schedule net uuid clock schedule st = execute_from net uuid clock 0 schedule st"

text \<open>
  When the source records a confirmation for a transaction: the search and the confirm are
  answered without an \<open>error\<close> key and neither the select nor the init raises. The replies
  to select and init are not inspected by the source, so an error reply to either of them
  does not prevent the confirmation.
\<close>

definition confirmation_recorded :: "(string \<Rightarrow> action \<Rightarrow> reply) \<Rightarrow> string \<Rightarrow> bool" where
  "confirmation_recorded net tid =
     (net tid Search = Ok
      \<and> (case net tid Select of Raised e \<Rightarrow> False | _ \<Rightarrow> True)
      \<and> (case net tid Init of Raised e \<Rightarrow> False | _ \<Rightarrow> True)
      \<and> net tid Confirm = Ok)"

definition searched :: "BecknOrchestrator \<Rightarrow> string list" where
  "searched st = map snd (filter (\<lambda>(a, tid). a = Search) (requests_sent st))"

definition confirmed_transaction :: "(nat \<Rightarrow> string) \<Rightarrow> (nat \<Rightarrow> int) \<Rightarrow> nat \<Rightarrow> assignment \<Rightarrow> transaction" where
  "confirmed_transaction uuid clock k scheduled_job =
     \<lparr>t_job = a_job scheduled_job, t_transaction_id = uuid k,
      t_scheduled = scheduled_job, t_status = ''CONFIRMED'', t_confirmed_at = clock k\<rparr>"

text \<open>A schedule of three entries whose second exchange fails with an exception.\<close>

definition immediate_assignment :: "ComputeJob \<Rightarrow> string \<Rightarrow> assignment" where
  "immediate_assignment job r =
     \<lparr>a_job = job, start_time = 0, start_datetime = 0, end_datetime = 0, region = r,
      cost = 0, carbon = 0, p415_revenue = 0, baseline_cost = 0, baseline_carbon = 0\<rparr>"

definition sample_schedule :: "assignment list" where
  "sample_schedule = [immediate_assignment sample_job ''north'',
                      immediate_assignment roaming_job ''south'',
                      immediate_assignment rigid_job ''scotland'']"

definition sample_uuid :: "nat \<Rightarrow> string" where
  "sample_uuid k = (if k = 0 then ''aaaaaaaa-aaaa-4aaa''
                    else if k = 1 then ''bbbbbbbb-bbbb-4bbb''
                    else ''cccccccc-cccc-4ccc'')"

definition select_rejecting_net :: "string \<Rightarrow> action \<Rightarrow> reply" where
  "select_rejecting_net tid a = (if a = Select then ErrorReply ''500'' else Ok)"

definition flaky_net :: "string \<Rightarrow> action \<Rightarrow> reply" where
  "flaky_net tid a = (if tid = ''bbbbbbbb-bbbb-4bbb'' then Raised OtherError else Ok)"

section \<open>Job lifecycle queues (beckn/agents/compute\_monitor.py)\<close>

record ComputeMonitor =
  pending_jobs :: "ComputeJob list"
  scheduled_jobs :: "ComputeJob list"
  running_jobs :: "ComputeJob list"
  completed_jobs :: "ComputeJob list"
  failed_jobs :: "ComputeJob list"

definition new_monitor :: ComputeMonitor where
  "new_monitor = \<lparr>pending_jobs = [], scheduled_jobs = [], running_jobs = [],
                   completed_jobs = [], failed_jobs = []\<rparr>"

text \<open>The search loops: the first job of a queue with the given id.\<close>

definition find_job :: "string \<Rightarrow> ComputeJob list \<Rightarrow> ComputeJob option" where
  "find_job jid queue = find (\<lambda>j. job_id j = jid) queue"

text \<open>
  \<open>job.status = status\<close> writes to the object that the search found, which sits in a
  queue: the first job with that id is replaced by its updated copy.
\<close>

fun assign_status :: "string \<Rightarrow> string \<Rightarrow> ComputeJob list \<Rightarrow> ComputeJob list" where
  "assign_status jid new_status [] = []"
| "assign_status jid new_status (j # js) =
     (if job_id j = jid then j\<lparr>status := new_status\<rparr> # js
      else j # assign_status jid new_status js)"

text \<open>\<open>list.remove\<close> drops the first equal element and raises \<open>ValueError\<close> without one.\<close>

definition py_remove :: "ComputeJob \<Rightarrow> ComputeJob list \<Rightarrow> py_error + ComputeJob list" where
  "py_remove x xs = (if x \<in> set xs then Inr (remove1 x xs) else Inl ValueError)"

text \<open>
  The queue moves that follow the assignment. \<open>job\<close> is the job with its new status,
  \<open>old_status\<close> the status it had. An exception leaves the monitor as it is at that point.
\<close>

definition move_between_queues ::
  "ComputeMonitor \<Rightarrow> ComputeJob \<Rightarrow> string \<Rightarrow> string \<Rightarrow> ComputeMonitor \<times> py_error option" where
  "move_between_queues m job old_status new_status =
     (if new_status = ''scheduled'' \<and> old_status = ''pending'' then
        (case py_remove job (pending_jobs m) of
           Inl e \<Rightarrow> (m, Some e)
         | Inr q \<Rightarrow> (m\<lparr>pending_jobs := q, scheduled_jobs := scheduled_jobs m @ [job]\<rparr>, None))
      else if new_status = ''running'' \<and> old_status = ''scheduled'' then
        (case py_remove job (scheduled_jobs m) of
           Inl e \<Rightarrow> (m, Some e)
         | Inr q \<Rightarrow> (m\<lparr>scheduled_jobs := q, running_jobs := running_jobs m @ [job]\<rparr>, None))
      else if new_status = ''completed'' \<and> old_status = ''running'' then
        (case py_remove job (running_jobs m) of
           Inl e \<Rightarrow> (m, Some e)
         | Inr q \<Rightarrow> (m\<lparr>running_jobs := q, completed_jobs := completed_jobs m @ [job]\<rparr>, None))
      else if new_status = ''failed'' then
        (let m' = (if job \<in> set (pending_jobs m)
                   then m\<lparr>pending_jobs := remove1 job (pending_jobs m)\<rparr>
                   else if job \<in> set (scheduled_jobs m)
                   then m\<lparr>scheduled_jobs := remove1 job (scheduled_jobs m)\<rparr>
                   else if job \<in> set (running_jobs m)
                   then m\<lparr>running_jobs := remove1 job (running_jobs m)\<rparr>
                   else m)
         in (m'\<lparr>failed_jobs := failed_jobs m' @ [job]\<rparr>, None))
      else (m, None))"

text \<open>
  \<open>update_job_status\<close>: the job is looked up in the pending queue, then in the scheduled
  queue followed by the running queue; its status is assigned, then the queues are moved.
\<close>

definition update_job_status ::
  "ComputeMonitor \<Rightarrow> string \<Rightarrow> string \<Rightarrow> ComputeMonitor \<times> py_error option" where
  "update_job_status m jid new_status =
     (case find_job jid (pending_jobs m) of
        Some job \<Rightarrow>
          move_between_queues
            (m\<lparr>pending_jobs := assign_status jid new_status (pending_jobs m)\<rparr>)
            (job\<lparr>status := new_status\<rparr>) (status job) new_status
      | None \<Rightarrow>
          (case find_job jid (scheduled_jobs m) of
             Some job \<Rightarrow>
               move_between_queues
                 (m\<lparr>scheduled_jobs := assign_status jid new_status (scheduled_jobs m)\<rparr>)
                 (job\<lparr>status := new_status\<rparr>) (status job) new_status
           | None \<Rightarrow>
               (case find_job jid (running_jobs m) of
                  Some job \<Rightarrow>
                    move_between_queues
                      (m\<lparr>running_jobs := assign_status jid new_status (running_jobs m)\<rparr>)
                      (job\<lparr>status := new_status\<rparr>) (status job) new_status
                | None \<Rightarrow> (m, None))))"

definition one_pending :: ComputeMonitor where
  "one_pending = new_monitor\<lparr>pending_jobs := [sample_job]\<rparr>"

section \<open>Window forecaster (optimization/forecaster.py)\<close>

text \<open>\<open>int(x)\<close> on a float truncates towards zero.\<close>

definition py_int :: "real \<Rightarrow> int" where
  "py_int x = (if 0 \<le> x then \<lfloor>x\<rfloor> else \<lceil>x\<rceil>)"

text \<open>
  \<open>xs[start:stop]\<close>: a negative bound counts from the end, and both bounds are clipped
  to the list.
\<close>

definition clip_index :: "nat \<Rightarrow> int \<Rightarrow> nat" where
  "clip_index n i = (if i < 0 then nat (int n + i) else min (nat i) n)"

definition py_slice :: "'a list \<Rightarrow> int \<Rightarrow> int \<Rightarrow> 'a list" where
  "py_slice xs start stop =
     (let a = clip_index (length xs) start; b = clip_index (length xs) stop
      in take (b - a) (drop a xs))"

definition forecast_regions :: "string list" where
  "forecast_regions = [''north'', ''south'', ''scotland'']"

text \<open>
  The body of the inner loop for one region and hour. \<open>rnd\<close> is the draw of
  \<open>random.uniform(0, 0.2)\<close> made for the window. A region without a series raises
  \<open>KeyError\<close>, a zero \<open>duration_hours\<close> raises \<open>ZeroDivisionError\<close>.
\<close>

definition window_at ::
  "ComputeJob \<Rightarrow> series \<Rightarrow> series \<Rightarrow> (string \<Rightarrow> nat \<Rightarrow> real) \<Rightarrow> string \<times> nat
     \<Rightarrow> py_error + window" where
  "window_at job prices carbons rnd rh =
     (case rh of (r, hour) \<Rightarrow>
        (case map_of prices r of
           None \<Rightarrow> Inl KeyError
         | Some ps \<Rightarrow>
             if duration_hours job = 0 then Inl ZeroDivisionError
             else
               (case map_of carbons r of
                  None \<Rightarrow> Inl KeyError
                | Some cs \<Rightarrow>
                    let window_price =
                          sum_list (py_slice ps (int hour) (int hour + py_int (duration_hours job)))
                            / duration_hours job;
                        window_carbon =
                          sum_list (py_slice cs (int hour) (int hour + py_int (duration_hours job)))
                            / duration_hours job;
                        sc = (window_price / (15 / 100)) * (5 / 10) + (window_carbon / 200) * (5 / 10)
                    in Inr \<lparr>start_hour = int hour, w_region = r,
                             avg_price = window_price, avg_carbon = window_carbon,
                             score = sc, confidence = 7 / 10 + rnd r hour\<rparr>)))"

text \<open>A loop that appends one result for each element and stops at the first exception.\<close>

fun collect :: "('a \<Rightarrow> py_error + 'b) \<Rightarrow> 'a list \<Rightarrow> py_error + 'b list" where
  "collect f [] = Inr []"
| "collect f (x # xs) =
     (case f x of
        Inl e \<Rightarrow> Inl e
      | Inr y \<Rightarrow> (case collect f xs of Inl e \<Rightarrow> Inl e | Inr ys \<Rightarrow> Inr (y # ys)))"

text \<open>
  \<open>_heuristic_forecast\<close>: regions in the outer loop, \<open>range(horizon_hours - int(duration))\<close>
  in the inner one; the stable sort by score and the first three windows.
\<close>

definition heuristic_forecast ::
  "(string \<Rightarrow> nat \<Rightarrow> real) \<Rightarrow> ComputeJob \<Rightarrow> grid_forecast \<Rightarrow> int \<Rightarrow> py_error + window list" where
  "heuristic_forecast rnd job fc horizon_hours =
     (case fc_price fc of
        None \<Rightarrow> Inl KeyError
      | Some prices \<Rightarrow>
          (case fc_carbon fc of
             None \<Rightarrow> Inl KeyError
           | Some carbons \<Rightarrow>
               (case collect (window_at job prices carbons rnd)
                       (List.product forecast_regions
                          [0..<nat (horizon_hours - py_int (duration_hours job))]) of
                  Inl e \<Rightarrow> Inl e
                | Inr windows \<Rightarrow> Inr (take 3 (sort_key score windows)))))"

text \<open>
  The ranking as the specification words it (section 4.2), for a whole number of hours
  \<open>d\<close>: every region and every start hour \<open>h\<close> with \<open>h + d \<le> horizon\<close>, the means over
  \<open>[h, h + d)\<close>, the score, ascending order, the first three. It is given as the list
  of (region, start hour, score).
\<close>

definition spec_mean :: "real list \<Rightarrow> nat \<Rightarrow> nat \<Rightarrow> real" where
  "spec_mean vs h d = sum_list (take d (drop h vs)) / real d"

definition series_of :: "series \<Rightarrow> string \<Rightarrow> real list" where
  "series_of ser r = (case map_of ser r of None \<Rightarrow> [] | Some vs \<Rightarrow> vs)"

definition spec_score :: "series \<Rightarrow> series \<Rightarrow> nat \<Rightarrow> string \<times> nat \<Rightarrow> real" where
  "spec_score prices carbons d rh =
     (case rh of (r, h) \<Rightarrow>
        (5 / 10) * (spec_mean (series_of prices r) h d / (15 / 100))
        + (5 / 10) * (spec_mean (series_of carbons r) h d / 200))"

definition spec_rank_windows ::
  "series \<Rightarrow> series \<Rightarrow> nat \<Rightarrow> nat \<Rightarrow> (string \<times> nat \<times> real) list" where
  "spec_rank_windows prices carbons d horizon =
     take 3 (sort_key (\<lambda>(r, h, sc). sc)
       (map (\<lambda>rh. (fst rh, snd rh, spec_score prices carbons d rh))
          (List.product forecast_regions [0..<Suc horizon - d])))"

definition one_hour_job :: ComputeJob where
  "one_hour_job = sample_job\<lparr>duration_hours := 1\<rparr>"

definition no_rnd :: "string \<Rightarrow> nat \<Rightarrow> real" where
  "no_rnd r h = 0"

section \<open>Decision ledger (beckn/agents/audit\_logger.py)\<close>

text \<open>
  JSON values. A dict is an association list in insertion order with distinct keys.
  \<open>json.dumps(data, sort_keys=True)\<close> writes every dict with its keys in sorted order, and
  the text it writes determines the value up to that order: the text is represented by
  the key-sorted value \<open>canon data\<close>. SHA-256 is symbolic, as in models of protocols with
  perfect cryptography: \<open>SHA256 v\<close> is the digest of the text of \<open>v\<close>, and different
  texts have different digests. \<open>JHex d\<close> is the hex string of the digest \<open>d\<close>.
\<close>

datatype json = JNull | JBool bool | JInt int | JFloat real | JStr string
  | JArr "json list" | JObj "(string \<times> json) list" | JHex digest
and digest = SHA256 json

type_synonym dict = "(string \<times> json) list"

fun canon :: "json \<Rightarrow> json" where
  "canon (JArr vs) = JArr (map canon vs)"
| "canon (JObj kvs) = JObj (sort_key fst (map (\<lambda>kv. (fst kv, canon (snd kv))) kvs))"
| "canon v = v"

text \<open>\<open>d[k] = v\<close> and the dict without the key \<open>k\<close>.\<close>

fun dict_set :: "string \<Rightarrow> json \<Rightarrow> dict \<Rightarrow> dict" where
  "dict_set k v [] = [(k, v)]"
| "dict_set k v (kv # d) = (if fst kv = k then (k, v) # d else kv # dict_set k v d)"

definition dict_del :: "string \<Rightarrow> dict \<Rightarrow> dict" where
  "dict_del k d = filter (\<lambda>kv. fst kv \<noteq> k) d"

text \<open>
  What the claim about the ledger says of the hashed text, in its own words: the record is
  serialized with all its fields (\<open>same_content\<close>: the same values under the same keys,
  whatever the order of the keys) and with sorted key ordering (\<open>keys_sorted\<close>: in every
  dict the keys ascend). \<open>wf_json\<close> is the invariant of Python dicts that no key occurs
  twice.
\<close>

fun wf_json :: "json \<Rightarrow> bool" where
  "wf_json (JArr vs) = (\<forall>v\<in>set vs. wf_json v)"
| "wf_json (JObj kvs) = (distinct (map fst kvs) \<and> (\<forall>kv\<in>set kvs. wf_json (snd kv)))"
| "wf_json v = True"

fun keys_sorted :: "json \<Rightarrow> bool" where
  "keys_sorted (JArr vs) = (\<forall>v\<in>set vs. keys_sorted v)"
| "keys_sorted (JObj kvs) =
     (sorted_wrt (<) (map fst kvs) \<and> (\<forall>kv\<in>set kvs. keys_sorted (snd kv)))"
| "keys_sorted v = True"

fun same_content :: "json \<Rightarrow> json \<Rightarrow> bool" where
  "same_content (JArr vs) t =
     (case t of JArr ws \<Rightarrow> list_all2 same_content vs ws | _ \<Rightarrow> False)"
| "same_content (JObj kvs) t =
     (case t of
        JObj kws \<Rightarrow>
          length kvs = length kws
          \<and> (\<forall>kv\<in>set kvs. case map_of kws (fst kv) of
                               None \<Rightarrow> False
                             | Some w \<Rightarrow> same_content (snd kv) w)
      | _ \<Rightarrow> False)"
| "same_content v t = (v = t)"

text \<open>\<open>_calculate_hash\<close>: the digest of the sorted-key serialization.\<close>

definition calculate_hash :: "json \<Rightarrow> digest" where
  "calculate_hash data = SHA256 (canon data)"

text \<open>Decimal rendering of a counter, for the f-string of \<open>decision_id\<close>.\<close>

fun str_nat :: "nat \<Rightarrow> string" where
  "str_nat n = (if n < 10 then [''0123456789'' ! n]
                else str_nat (n div 10) @ [''0123456789'' ! (n mod 10)])"

declare str_nat.simps [simp del]

text \<open>The two renderings of a clock reading that the logger uses.\<close>

record time_format =
  iso :: "int \<Rightarrow> string"
  strftime :: "int \<Rightarrow> string"

record region_stats =
  rs_count :: int
  rs_total_energy_kwh :: real
  rs_total_cost :: real
  rs_total_carbon :: real
  rs_p415_revenue :: real

fun add_to_region :: "assignment \<Rightarrow> (string \<times> region_stats) list \<Rightarrow> (string \<times> region_stats) list" where
  "add_to_region s [] =
     [(region s, \<lparr>rs_count = 1, rs_total_energy_kwh = energy_kwh (a_job s),
                  rs_total_cost = cost s, rs_total_carbon = carbon s,
                  rs_p415_revenue = p415_revenue s\<rparr>)]"
| "add_to_region s ((r, st) # d) =
     (if r = region s
      then (r, \<lparr>rs_count = rs_count st + 1,
                rs_total_energy_kwh = rs_total_energy_kwh st + energy_kwh (a_job s),
                rs_total_cost = rs_total_cost st + cost s,
                rs_total_carbon = rs_total_carbon st + carbon s,
                rs_p415_revenue = rs_p415_revenue st + p415_revenue s\<rparr>) # d
      else (r, st) # add_to_region s d)"

definition calculate_regional_distribution :: "assignment list \<Rightarrow> dict" where
  "calculate_regional_distribution schedule =
     map (\<lambda>(r, st). (r, JObj [(''count'', JInt (rs_count st)),
                              (''total_energy_kwh'', JFloat (rs_total_energy_kwh st)),
                              (''total_cost'', JFloat (rs_total_cost st)),
                              (''total_carbon'', JFloat (rs_total_carbon st)),
                              (''p415_revenue'', JFloat (rs_p415_revenue st))]))
         (foldl (\<lambda>d s. add_to_region s d) [] schedule)"

definition job_summary :: "time_format \<Rightarrow> ComputeJob \<Rightarrow> json" where
  "job_summary fmt j =
     JObj [(''id'', JStr (job_id j)), (''name'', JStr (job_name j)),
           (''type'', JStr (job_type j)), (''priority'', JInt (priority j)),
           (''energy_kwh'', JFloat (energy_kwh j)), (''can_defer'', JBool (can_defer j)),
           (''deadline'', JStr (iso fmt (deadline j)))]"

definition schedule_summary :: "time_format \<Rightarrow> assignment \<Rightarrow> json" where
  "schedule_summary fmt s =
     JObj [(''job_id'', JStr (job_id (a_job s))), (''job_name'', JStr (job_name (a_job s))),
           (''job_type'', JStr (job_type (a_job s))), (''start_time'', JInt (start_time s)),
           (''start_datetime'', JStr (iso fmt (start_datetime s))),
           (''region'', JStr (region s)), (''cost'', JFloat (cost s)),
           (''carbon'', JFloat (carbon s)), (''p415_revenue'', JFloat (p415_revenue s)),
           (''baseline_cost'', JFloat (baseline_cost s)),
           (''baseline_carbon'', JFloat (baseline_carbon s))]"

definition grid_state_summary :: "grid_forecast \<Rightarrow> json" where
  "grid_state_summary gs =
     JObj [(''avg_price'', JFloat (case fc_avg_price gs of None \<Rightarrow> 0 | Some p \<Rightarrow> p)),
           (''avg_carbon'', JFloat (case fc_avg_carbon gs of None \<Rightarrow> 0 | Some c \<Rightarrow> c)),
           (''p415_events_count'',
              JInt (int (length (case fc_p415_events gs of None \<Rightarrow> [] | Some evs \<Rightarrow> evs)))),
           (''timestamp'', JStr (case fc_timestamp gs of None \<Rightarrow> [] | Some t \<Rightarrow> t))]"

record AuditLogger =
  decision_log :: "json list"
  total_cost_saved :: real
  total_carbon_saved :: real
  total_p415_revenue :: real
  jobs_processed :: nat
  decisions_logged :: nat

definition new_logger :: AuditLogger where
  "new_logger = \<lparr>decision_log = [], total_cost_saved = 0, total_carbon_saved = 0,
                  total_p415_revenue = 0, jobs_processed = 0, decisions_logged = 0\<rparr>"

text \<open>
  The dict that \<open>log_decision\<close> builds before the hash is added. \<open>clock 0\<close> and
  \<open>clock 1\<close> are the readings for \<open>timestamp\<close> and \<open>decision_id\<close>. The entries of the
  schedule have all their keys, so the defaults of \<open>get\<close> are not taken.
\<close>

definition decision_entry ::
  "time_format \<Rightarrow> AuditLogger \<Rightarrow> ComputeJob list \<Rightarrow> assignment list \<Rightarrow> grid_forecast
     \<Rightarrow> (nat \<Rightarrow> int) \<Rightarrow> dict" where
  "decision_entry fmt st jobs schedule grid_state clock =
     (let total_cost = sum_list (map cost schedule);
          total_carbon = sum_list (map carbon schedule);
          total_p415 = sum_list (map p415_revenue schedule);
          total_baseline_cost = sum_list (map baseline_cost schedule);
          total_baseline_carbon = sum_list (map baseline_carbon schedule);
          cost_savings = total_baseline_cost - total_cost;
          carbon_savings = total_baseline_carbon - total_carbon
      in [(''timestamp'', JStr (iso fmt (clock 0))),
          (''decision_id'',
             JStr (''decision_'' @ strftime fmt (clock 1) @ ''_'' @ str_nat (decisions_logged st))),
          (''jobs_count'', JInt (int (length jobs))),
          (''scheduled_count'', JInt (int (length schedule))),
          (''grid_state'', grid_state_summary grid_state),
          (''jobs_summary'', JArr (map (job_summary fmt) jobs)),
          (''schedule'', JArr (map (schedule_summary fmt) schedule)),
          (''metrics'',
             JObj [(''total_cost'', JFloat total_cost),
                   (''total_carbon'', JFloat total_carbon),
                   (''total_p415_revenue'', JFloat total_p415),
                   (''cost_savings'', JFloat cost_savings),
                   (''carbon_savings'', JFloat carbon_savings),
                   (''net_cost'', JFloat (total_cost - total_p415)),
                   (''cost_savings_percent'',
                      JFloat (if total_baseline_cost > 0
                              then cost_savings / total_baseline_cost * 100 else 0)),
                   (''carbon_savings_percent'',
                      JFloat (if total_baseline_carbon > 0
                              then carbon_savings / total_baseline_carbon * 100 else 0))]),
          (''regional_distribution'', JObj (calculate_regional_distribution schedule))])"

text \<open>
  \<open>log_decision\<close>: the hash of the entry is stored under the key \<open>hash\<close>, the record is
  appended to the decision log, the running totals are updated. The two percentages of
  the closing \<open>print\<close> divide by the baseline totals, so a zero total raises
  \<open>ZeroDivisionError\<close> after the record has been written.
\<close>

definition log_decision ::
  "time_format \<Rightarrow> AuditLogger \<Rightarrow> ComputeJob list \<Rightarrow> assignment list \<Rightarrow> grid_forecast
     \<Rightarrow> (nat \<Rightarrow> int) \<Rightarrow> AuditLogger \<times> py_error option" where
  "log_decision fmt st jobs schedule grid_state clock =
     (let total_cost = sum_list (map cost schedule);
          total_carbon = sum_list (map carbon schedule);
          total_p415 = sum_list (map p415_revenue schedule);
          total_baseline_cost = sum_list (map baseline_cost schedule);
          total_baseline_carbon = sum_list (map baseline_carbon schedule);
          cost_savings = total_baseline_cost - total_cost;
          carbon_savings = total_baseline_carbon - total_carbon;
          entry = decision_entry fmt st jobs schedule grid_state clock;
          entry' = dict_set ''hash'' (JHex (calculate_hash (JObj entry))) entry;
          st' = st\<lparr>decision_log := decision_log st @ [JObj entry'],
                   total_cost_saved := total_cost_saved st + cost_savings,
                   total_carbon_saved := total_carbon_saved st + carbon_savings,
                   total_p415_revenue := total_p415_revenue st + total_p415,
                   jobs_processed := jobs_processed st + length schedule,
                   decisions_logged := decisions_logged st + 1\<rparr>
      in (st', if total_baseline_cost = 0 \<or> total_baseline_carbon = 0
               then Some ZeroDivisionError else None))"

definition sample_format :: time_format where
  "sample_format = \<lparr>iso = (\<lambda>t. ''2025-01-01T00:00:00''), strftime = (\<lambda>t. ''20250101_000000'')\<rparr>"

text \<open>A schedule entry with figures, for the ledger.\<close>

definition priced_assignment :: assignment where
  "priced_assignment = \<lparr>a_job = sample_job, start_time = 0, start_datetime = 0,
     end_datetime = 1, region = ''north'', cost = 18, carbon = 27000, p415_revenue = 0,
     baseline_cost = 45 / 2, baseline_carbon = 37500\<rparr>"

chapter \<open>Properties\<close>

section \<open>Properties of the bid valuator\<close>

lemma revenue_multiplier_spec:
  "revenue_multiplier job ev =
     (if spec_eligible job ev then Some (spec_multiplier ev) else None)"
  by (auto simp: revenue_multiplier_def spec_eligible_def spec_multiplier_def
        product_class_of_def products_def split: option.splits)

lemma value_unfold:
  "calculate_flexibility_value eng job tw ev =
     (if spec_eligible job ev
      then get_clearing_price ev * power_mw job * (get_duration_minutes ev / 60) * spec_multiplier ev
           - get_clearing_price ev * power_mw job * (get_duration_minutes ev / 60) * spec_multiplier ev
             * revenue_share eng
      else 0)"
  by (simp add: calculate_flexibility_value_def revenue_multiplier_spec Let_def)


text \<open>
  Claim C2, as the code has it. A fast-response (\<open>DC\<close>) event never gives a positive
  value to a job that cannot be interrupted, and a job that cannot be deferred never gets
  a positive value for the medium (\<open>DM\<close>) or the slow (\<open>DR\<close>) product. The fast product
  is gated by \<open>can_interrupt\<close> alone.
\<close>

theorem bid_eligibility_by_product:
  "(product ev = Some ''DC'' \<and> \<not> can_interrupt job
      \<longrightarrow> calculate_flexibility_value eng job tw ev \<le> 0)
   \<and> (\<not> can_defer job \<and> (product ev = Some ''DM'' \<or> product ev = Some ''DR'')
      \<longrightarrow> calculate_flexibility_value eng job tw ev \<le> 0)"
  by (auto simp: value_unfold spec_eligible_def product_class_of_def)

theorem bid_eligibility_by_product_witness:
  "product dc_event = Some ''DC'' \<and> \<not> can_interrupt rigid_job
   \<and> calculate_flexibility_value default_engine rigid_job 0 dc_event \<le> 0
   \<and> \<not> can_defer rigid_job \<and> product dr_event = Some ''DR''
   \<and> calculate_flexibility_value default_engine rigid_job 0 dr_event \<le> 0"
  using bid_eligibility_by_product [of dc_event rigid_job default_engine 0]
    bid_eligibility_by_product [of dr_event rigid_job default_engine 0]
  by (simp add: dc_event_def dr_event_def rigid_job_def sample_job_def)

text \<open>
  Claim C2 as written fails: a job with \<open>can_defer = False\<close> and \<open>can_interrupt = True\<close>
  receives the positive value 108 for the fast-response product.
\<close>

theorem no_defer_fast_product_counterexample:
  "\<not> can_defer interrupt_only_job \<and> product dc_event = Some ''DC''
   \<and> calculate_flexibility_value default_engine interrupt_only_job 0 dc_event = 108"
  by (simp add: value_unfold spec_eligible_def spec_multiplier_def product_class_of_def
        get_clearing_price_def get_duration_minutes_def default_engine_def new_engine_def
        interrupt_only_job_def sample_job_def dc_event_def)

text \<open>
  Claim C3. For an eligible pair the valuator returns
  clearing price \<open>\<times>\<close> power \<open>\<times>\<close> (duration / 60) \<open>\<times>\<close> multiplier, less the platform share of
  that product, the price and the duration being the ones the event carries (a missing
  duration counts as 30 minutes, a missing price as 0) and the multiplier 0.8, 0.5 or 0.3
  for the fast, medium and slow product; with the default share of 10 percent, a
  fast-response event at price 150 for 30 minutes against an interruptible job of 2 MW is
  worth exactly 108.
\<close>

theorem eligible_value_formula:
  "(spec_eligible job ev \<and> clearing_price ev = Some cp \<and> duration_minutes ev = Some d \<longrightarrow>
      calculate_flexibility_value eng job tw ev =
        cp * power_mw job * (d / 60) * spec_multiplier ev
        - revenue_share eng * (cp * power_mw job * (d / 60) * spec_multiplier ev))
   \<and> (spec_eligible job ev \<and> clearing_price ev = Some cp \<and> duration_minutes ev = None \<longrightarrow>
      calculate_flexibility_value eng job tw ev =
        cp * power_mw job * (30 / 60) * spec_multiplier ev
        - revenue_share eng * (cp * power_mw job * (30 / 60) * spec_multiplier ev))
   \<and> (spec_eligible job ev \<and> clearing_price ev = None \<longrightarrow>
      calculate_flexibility_value eng job tw ev = 0)
   \<and> (product ev = Some ''DC'' \<longrightarrow> spec_multiplier ev = 8 / 10)
   \<and> (product ev = Some ''DM'' \<longrightarrow> spec_multiplier ev = 5 / 10)
   \<and> (product ev = Some ''DR'' \<longrightarrow> spec_multiplier ev = 3 / 10)
   \<and> revenue_share default_engine = 1 / 10
   \<and> (product ev = Some ''DC'' \<and> clearing_price ev = Some 150 \<and> duration_minutes ev = Some 30
        \<and> power_mw job = 2 \<and> can_interrupt job
      \<longrightarrow> calculate_flexibility_value default_engine job tw ev = 108)"
  by (auto simp: value_unfold spec_eligible_def spec_multiplier_def product_class_of_def
        get_clearing_price_def get_duration_minutes_def default_engine_def new_engine_def)

theorem eligible_value_formula_witness:
  "spec_eligible sample_job dm_event
   \<and> clearing_price dm_event = Some 80 \<and> duration_minutes dm_event = Some 90
   \<and> calculate_flexibility_value default_engine sample_job 0 dm_event
       = 80 * 2 * (90 / 60) * (5 / 10) - (1 / 10) * (80 * 2 * (90 / 60) * (5 / 10))
   \<and> calculate_flexibility_value default_engine sample_job 0 dm_event = 108
   \<and> spec_eligible sample_job dc_event
   \<and> calculate_flexibility_value default_engine sample_job 0 dc_event
       = 150 * 2 * (30 / 60) * (8 / 10) - (1 / 10) * (150 * 2 * (30 / 60) * (8 / 10))
   \<and> calculate_flexibility_value default_engine sample_job 0 dc_event = 108
   \<and> spec_eligible sample_job dr_late_event
   \<and> clearing_price dr_late_event = Some 40 \<and> duration_minutes dr_late_event = None
   \<and> calculate_flexibility_value default_engine sample_job 0 dr_late_event
       = 40 * 2 * (30 / 60) * (3 / 10) - (1 / 10) * (40 * 2 * (30 / 60) * (3 / 10))"
proof -
  have e1: "spec_eligible sample_job dm_event"
    and e2: "spec_eligible sample_job dc_event"
    and e3: "spec_eligible sample_job dr_late_event"
    by (simp_all add: spec_eligible_def product_class_of_def sample_job_def dm_event_def
          dc_event_def dr_late_event_def)
  have f1: "clearing_price dm_event = Some 80" "duration_minutes dm_event = Some 90"
    and f2: "clearing_price dc_event = Some 150" "duration_minutes dc_event = Some 30"
    and f3: "clearing_price dr_late_event = Some 40" "duration_minutes dr_late_event = None"
    by (simp_all add: dm_event_def dc_event_def dr_late_event_def)
  have m: "spec_multiplier dm_event = 5 / 10" "spec_multiplier dc_event = 8 / 10"
    "spec_multiplier dr_late_event = 3 / 10"
    by (simp_all add: spec_multiplier_def product_class_of_def dm_event_def dc_event_def
          dr_late_event_def)
  have p: "power_mw sample_job = 2" "revenue_share default_engine = 1 / 10"
    by (simp_all add: sample_job_def default_engine_def new_engine_def)
  have v1: "calculate_flexibility_value default_engine sample_job 0 dm_event
       = 80 * 2 * (90 / 60) * (5 / 10) - (1 / 10) * (80 * 2 * (90 / 60) * (5 / 10))"
    using eligible_value_formula [of sample_job dm_event 80 90 default_engine 0] e1 f1
    by (simp add: m p)
  have v2: "calculate_flexibility_value default_engine sample_job 0 dc_event
       = 150 * 2 * (30 / 60) * (8 / 10) - (1 / 10) * (150 * 2 * (30 / 60) * (8 / 10))"
    using eligible_value_formula [of sample_job dc_event 150 30 default_engine 0] e2 f2
    by (simp add: m p)
  have v3: "calculate_flexibility_value default_engine sample_job 0 dr_late_event
       = 40 * 2 * (30 / 60) * (3 / 10) - (1 / 10) * (40 * 2 * (30 / 60) * (3 / 10))"
    using eligible_value_formula [of sample_job dr_late_event 40 0 default_engine 0] e3 f3
    by (simp add: m p)
  from v1 have v1': "calculate_flexibility_value default_engine sample_job 0 dm_event = 108"
    by simp
  from v2 have v2': "calculate_flexibility_value default_engine sample_job 0 dc_event = 108"
    by simp
  from e1 e2 e3 f1 f3 v1 v1' v2 v2' v3 show ?thesis by simp
qed

subsection \<open>Rounding to binary64\<close>




















subsection \<open>Two runs of \<open>create_bid\<close> at the edge of the double range\<close>



subsection \<open>When \<open>create_bid\<close> returns \<open>None\<close>\<close>




section \<open>Properties of the FIFO fallback\<close>







text \<open>
  Claim C8. The fallback reads nothing but its two arguments and the clock, and the clock
  reaches only the two datetime fields: for any two runs (any two clocks) on the same
  job list and forecast, the outcome is the same error, or two schedules with the same
  job, start hour, region, cost, carbon, revenue and baseline figures at every position.
\<close>

theorem fallback_schedule_deterministic:
  "map_sum id (map assignment_figures) (fallback_schedule clock1 jobs fc)
     = map_sum id (map assignment_figures) (fallback_schedule clock2 jobs fc)"
proof -
  have entry: "map_sum id assignment_figures (fallback_entry clock1 k1 job fc)
                 = map_sum id assignment_figures (fallback_entry clock2 k2 job fc)"
    for k1 k2 job
    by (simp add: fallback_entry_def assignment_figures_def Let_def split: option.splits)
  have "map_sum id (map assignment_figures) (fallback_from clock1 k1 jobs fc)
          = map_sum id (map assignment_figures) (fallback_from clock2 k2 jobs fc)" for k1 k2
  proof (induction jobs arbitrary: k1 k2)
    case Nil
    show ?case by simp
  next
    case (Cons job jobs)
    show ?case
      using entry [of k1 job k2] Cons.IH [of "Suc k1" "Suc k2"]
      by (auto split: sum.splits)
  qed
  then show ?thesis by (simp add: fallback_schedule_def)
qed

section \<open>Properties of the forecast cache\<close>

lemma fetch_forecast_hit:
  assumes "is_cache_valid st (clock 0)"
  shows "fetch_forecast src st clock h = (last_forecast st, st, False)"
  using assms by (simp add: fetch_forecast_def)

lemma fetch_forecast_fresh:
  assumes "fetch_forecast src st clock h = (r, st', True)"
  shows "\<not> is_cache_valid st (clock 0)
         \<and> (\<exists>fc. r = Some fc \<and> last_forecast st' = Some fc \<and> dict_nonempty fc
                 \<and> fc_horizon_hours fc = Some h)
         \<and> last_update st' = Some (clock 2) \<and> cache_duration st' = cache_duration st"
proof (cases "is_cache_valid st (clock 0)")
  case True
  with assms show ?thesis by (simp add: fetch_forecast_def)
next
  case False
  with assms show ?thesis
    by (auto simp: fetch_forecast_def Let_def dict_nonempty_def)
qed

text \<open>
  Claim C10. While the cache is younger than \<open>cache_duration\<close>, \<open>fetch_forecast\<close> returns
  the cached forecast and leaves the ingestor as it is, whatever horizon is asked for; the
  fresh path runs only when there is no cached forecast, no update time, or the age has
  reached \<open>cache_duration\<close>; and after a fetch that built a forecast for horizon \<open>h\<close>, any
  call within \<open>cache_duration\<close> of the stored update time returns that same forecast, also
  for another horizon. The default duration is 5 minutes.
\<close>

theorem fetch_forecast_serves_cache:
  "(cache_wf st \<and> last_forecast st = Some fc \<and> last_update st = Some t
      \<and> clock 0 - t < cache_duration st
      \<longrightarrow> fetch_forecast src st clock h = (Some fc, st, False))
   \<and> (cache_wf st \<and> snd (snd (fetch_forecast src st clock h))
      \<longrightarrow> last_forecast st = None \<or> last_update st = None
          \<or> (\<exists>t. last_update st = Some t \<and> cache_duration st \<le> clock 0 - t))
   \<and> (\<forall>fc1 st1 clock2 h2 src2.
        fetch_forecast src st clock h = (Some fc1, st1, True)
        \<and> clock2 0 - clock 2 < cache_duration st
      \<longrightarrow> fetch_forecast src2 st1 clock2 h2 = (Some fc1, st1, False)
          \<and> fc_horizon_hours fc1 = Some h)
   \<and> cache_wf (fst (snd (fetch_forecast src st clock h)))
   \<and> cache_wf (new_ingestor m) \<and> cache_wf (clear_cache st)
   \<and> cache_duration default_ingestor = 5 * 60 * 1000000"
proof -
  have A: "cache_wf st \<and> last_forecast st = Some fc \<and> last_update st = Some t
      \<and> clock 0 - t < cache_duration st
      \<longrightarrow> fetch_forecast src st clock h = (Some fc, st, False)"
    by (auto simp: fetch_forecast_def is_cache_valid_def cache_wf_def)
  have B: "cache_wf st \<and> snd (snd (fetch_forecast src st clock h))
      \<longrightarrow> last_forecast st = None \<or> last_update st = None
          \<or> (\<exists>t. last_update st = Some t \<and> cache_duration st \<le> clock 0 - t)"
    by (auto simp: fetch_forecast_def is_cache_valid_def cache_wf_def Let_def
          split: if_splits option.splits)
  have C: "\<forall>fc1 st1 clock2 h2 src2.
        fetch_forecast src st clock h = (Some fc1, st1, True)
        \<and> clock2 0 - clock 2 < cache_duration st
      \<longrightarrow> fetch_forecast src2 st1 clock2 h2 = (Some fc1, st1, False)
          \<and> fc_horizon_hours fc1 = Some h"
  proof (intro allI impI)
    fix fc1 st1 h2 src2 and clock2 :: "nat \<Rightarrow> int"
    assume a: "fetch_forecast src st clock h = (Some fc1, st1, True)
        \<and> clock2 0 - clock 2 < cache_duration st"
    from a fetch_forecast_fresh [of src st clock h "Some fc1" st1]
    have f: "last_forecast st1 = Some fc1" "dict_nonempty fc1"
      "fc_horizon_hours fc1 = Some h" "last_update st1 = Some (clock 2)"
      "cache_duration st1 = cache_duration st"
      by auto
    with a have "is_cache_valid st1 (clock2 0)"
      by (simp add: is_cache_valid_def)
    then have "fetch_forecast src2 st1 clock2 h2 = (last_forecast st1, st1, False)"
      by (rule fetch_forecast_hit)
    with f show "fetch_forecast src2 st1 clock2 h2 = (Some fc1, st1, False)
          \<and> fc_horizon_hours fc1 = Some h"
      by simp
  qed
  have D: "cache_wf (fst (snd (fetch_forecast src st clock h)))"
    by (auto simp: fetch_forecast_def is_cache_valid_def cache_wf_def Let_def
          dict_nonempty_def split: option.splits if_splits)
  have E: "cache_wf (new_ingestor m)" "cache_wf (clear_cache st)"
    "cache_duration default_ingestor = 5 * 60 * 1000000"
    by (simp_all add: cache_wf_def new_ingestor_def clear_cache_def default_ingestor_def)
  from A B C D E show ?thesis by blast
qed

theorem fetch_forecast_serves_cache_witness:
  "fetch_forecast sample_sources default_ingestor int 24 = (Some first_forecast, cached_ingestor, True)
   \<and> later_clock 0 - int 2 < cache_duration default_ingestor
   \<and> fetch_forecast sample_sources cached_ingestor later_clock 48
       = (Some first_forecast, cached_ingestor, False)
   \<and> fc_horizon_hours first_forecast = Some 24
   \<and> cache_wf cached_ingestor
   \<and> snd (snd (fetch_forecast sample_sources cached_ingestor expired_clock 48))
   \<and> last_update cached_ingestor = Some 2
   \<and> cache_duration cached_ingestor \<le> expired_clock 0 - 2"
proof -
  have run1: "fetch_forecast sample_sources default_ingestor int 24
                = (Some first_forecast, cached_ingestor, True)"
    by (simp add: fetch_forecast_def is_cache_valid_def default_ingestor_def new_ingestor_def
          sample_sources_def first_forecast_def cached_ingestor_def Let_def)
  have age: "later_clock 0 - int 2 < cache_duration default_ingestor"
    by (simp add: later_clock_def default_ingestor_def new_ingestor_def)
  have wf: "cache_wf cached_ingestor"
    by (simp add: cache_wf_def cached_ingestor_def first_forecast_def dict_nonempty_def)
  have lu: "last_update cached_ingestor = Some 2"
    "cache_duration cached_ingestor \<le> expired_clock 0 - 2"
    by (simp_all add: cached_ingestor_def expired_clock_def default_ingestor_def new_ingestor_def)
  have fresh: "snd (snd (fetch_forecast sample_sources cached_ingestor expired_clock 48))"
    by (simp add: fetch_forecast_def is_cache_valid_def cached_ingestor_def expired_clock_def
          default_ingestor_def new_ingestor_def Let_def)
  note inst = fetch_forecast_serves_cache [of default_ingestor first_forecast 0 int
      sample_sources 24 0]
  from inst have "\<forall>fc1 st1 clock2 h2 src2.
        fetch_forecast sample_sources default_ingestor int 24 = (Some fc1, st1, True)
        \<and> clock2 0 - int 2 < cache_duration default_ingestor
      \<longrightarrow> fetch_forecast src2 st1 clock2 h2 = (Some fc1, st1, False)
          \<and> fc_horizon_hours fc1 = Some 24"
    by blast
  with run1 age
  have "fetch_forecast sample_sources cached_ingestor later_clock 48
          = (Some first_forecast, cached_ingestor, False)
        \<and> fc_horizon_hours first_forecast = Some 24"
    by blast
  with run1 age wf fresh lu show ?thesis by blast
qed

section \<open>Properties of the transaction orchestrator\<close>

lemma single_job_transactions:
  "active_transactions (fst (execute_single_job net uuid clock k sj st)) =
     (if confirmation_recorded net (uuid k)
      then (active_transactions st)(order_id (uuid k) \<mapsto> confirmed_transaction uuid clock k sj)
      else active_transactions st)"
  by (auto simp: execute_single_job_def confirmation_recorded_def confirmed_transaction_def send_def
        Let_def split: reply.splits)

lemma single_job_searched:
  "searched (fst (execute_single_job net uuid clock k sj st)) = searched st @ [uuid k]"
  by (auto simp: execute_single_job_def searched_def send_def Let_def split: reply.splits)

lemma execute_from_step:
  "execute_from net uuid clock k (sj # rest) st =
     execute_from net uuid clock (Suc k) rest (fst (execute_single_job net uuid clock k sj st))"
  by (cases "execute_single_job net uuid clock k sj st") (auto split: option.splits)

lemma execute_from_searched:
  "searched (execute_from net uuid clock k sched st)
     = searched st @ map uuid [k..<k + length sched]"
proof (induction sched arbitrary: k st)
  case Nil
  show ?case by simp
next
  case (Cons sj rest)
  have "searched (execute_from net uuid clock k (sj # rest) st)
          = (searched st @ [uuid k]) @ map uuid [Suc k..<Suc k + length rest]"
    by (simp only: execute_from_step Cons.IH single_job_searched)
  also have "\<dots> = searched st @ map uuid (k # [Suc k..<Suc k + length rest])"
    by simp
  also have "k # [Suc k..<Suc k + length rest] = [k..<Suc k + length rest]"
    by (rule upt_conv_Cons [symmetric]) simp
  also have "Suc k + length rest = k + length (sj # rest)"
    by simp
  finally show ?case .
qed

lemma execute_from_other_key:
  assumes "\<forall>i<length sched. order_id (uuid (k + i)) \<noteq> key"
  shows "active_transactions (execute_from net uuid clock k sched st) key
           = active_transactions st key"
  using assms
proof (induction sched arbitrary: k st)
  case Nil
  show ?case by simp
next
  case (Cons sj rest)
  from Cons.prems have k: "order_id (uuid k) \<noteq> key" by force
  from Cons.prems have "\<forall>i<length rest. order_id (uuid (Suc k + i)) \<noteq> key" by force
  then have "active_transactions (execute_from net uuid clock (Suc k) rest
               (fst (execute_single_job net uuid clock k sj st))) key
             = active_transactions (fst (execute_single_job net uuid clock k sj st)) key"
    by (rule Cons.IH)
  with k show ?case
    by (simp only: execute_from_step) (simp add: single_job_transactions)
qed

lemma execute_from_own_key:
  assumes "inj_on (\<lambda>i. order_id (uuid i)) {k..<k + length sched}"
    and "i < length sched"
  shows "active_transactions (execute_from net uuid clock k sched st) (order_id (uuid (k + i)))
           = (if confirmation_recorded net (uuid (k + i))
              then Some (confirmed_transaction uuid clock (k + i) (sched ! i))
              else active_transactions st (order_id (uuid (k + i))))"
  using assms
proof (induction sched arbitrary: k st i)
  case Nil
  then show ?case by simp
next
  case (Cons sj rest)
  let ?st' = "fst (execute_single_job net uuid clock k sj st)"
  show ?case
  proof (cases i)
    case 0
    have "\<forall>j<length rest. order_id (uuid (Suc k + j)) \<noteq> order_id (uuid k)"
    proof (intro allI impI)
      fix j assume j: "j < length rest"
      show "order_id (uuid (Suc k + j)) \<noteq> order_id (uuid k)"
      proof
        assume "order_id (uuid (Suc k + j)) = order_id (uuid k)"
        with Cons.prems(1) j have "Suc k + j = k"
          by (auto dest!: inj_onD [where x = "Suc k + j" and y = k])
        then show False by simp
      qed
    qed
    then have "active_transactions (execute_from net uuid clock (Suc k) rest ?st') (order_id (uuid k))
          = active_transactions ?st' (order_id (uuid k))"
      by (rule execute_from_other_key)
    with 0 show ?thesis
      by (simp only: execute_from_step) (simp add: single_job_transactions)
  next
    case (Suc i')
    with Cons.prems have i': "i' < length rest" by simp
    have inj': "inj_on (\<lambda>i. order_id (uuid i)) {Suc k..<Suc k + length rest}"
      using Cons.prems(1) by (rule inj_on_subset) auto
    have ne: "order_id (uuid (Suc k + i')) \<noteq> order_id (uuid k)"
    proof
      assume "order_id (uuid (Suc k + i')) = order_id (uuid k)"
      with Cons.prems(1) i' have "Suc k + i' = k"
        by (auto dest!: inj_onD [where x = "Suc k + i'" and y = k])
      then show False by simp
    qed
    have "active_transactions (execute_from net uuid clock (Suc k) rest ?st')
            (order_id (uuid (Suc k + i')))
          = (if confirmation_recorded net (uuid (Suc k + i'))
             then Some (confirmed_transaction uuid clock (Suc k + i') (rest ! i'))
             else active_transactions ?st' (order_id (uuid (Suc k + i'))))"
      using inj' i' by (rule Cons.IH)
    with ne Suc show ?thesis
      by (simp only: execute_from_step) (simp add: single_job_transactions)
  qed
qed

text \<open>
  Isolation: whatever the counterparty answers, \<open>execute_schedule\<close> starts the exchange
  of every entry of the schedule, one search per entry in schedule order, so an error or
  an exception in one entry never stops the loop; and, the order ids being distinct, what
  is recorded for an entry depends on the answers to its own requests only.
\<close>

theorem execute_schedule_isolates_failures:
  "searched (execute_schedule net uuid clock sched new_orchestrator) = map uuid [0..<length sched]
   \<and> (inj_on (\<lambda>i. order_id (uuid i)) {0..<length sched} \<longrightarrow>
       (\<forall>i<length sched.
          active_transactions (execute_schedule net uuid clock sched new_orchestrator)
            (order_id (uuid i))
          = (if confirmation_recorded net (uuid i)
             then Some (confirmed_transaction uuid clock i (sched ! i))
             else None)))"
proof -
  have s: "searched (execute_schedule net uuid clock sched new_orchestrator)
             = map uuid [0..<length sched]"
    using execute_from_searched [of net uuid clock 0 sched new_orchestrator]
    by (simp add: execute_schedule_def searched_def new_orchestrator_def)
  have t: "active_transactions (execute_schedule net uuid clock sched new_orchestrator)
            (order_id (uuid i))
          = (if confirmation_recorded net (uuid i)
             then Some (confirmed_transaction uuid clock i (sched ! i))
             else None)"
    if "inj_on (\<lambda>i. order_id (uuid i)) {0..<length sched}" and "i < length sched" for i
    using execute_from_own_key [of uuid 0 sched i net clock new_orchestrator] that
    by (simp add: execute_schedule_def new_orchestrator_def)
  from s t show ?thesis by blast
qed

theorem execute_schedule_isolates_failures_witness:
  "inj_on (\<lambda>i. order_id (sample_uuid i)) {0..<length sample_schedule}
   \<and> \<not> confirmation_recorded flaky_net (sample_uuid 1)
   \<and> searched (execute_schedule flaky_net sample_uuid int sample_schedule new_orchestrator)
        = [''aaaaaaaa-aaaa-4aaa'', ''bbbbbbbb-bbbb-4bbb'', ''cccccccc-cccc-4ccc'']
   \<and> active_transactions (execute_schedule flaky_net sample_uuid int sample_schedule new_orchestrator)
        (order_id (sample_uuid 1)) = None
   \<and> active_transactions (execute_schedule flaky_net sample_uuid int sample_schedule new_orchestrator)
        (order_id (sample_uuid 2))
        = Some (confirmed_transaction sample_uuid int 2 (immediate_assignment rigid_job ''scotland''))"
proof -
  have len: "length sample_schedule = 3"
    by (simp add: sample_schedule_def)
  have set3: "{0..<3::nat} = {0, 1, 2}"
    by auto
  have inj: "inj_on (\<lambda>i. order_id (sample_uuid i)) {0..<length sample_schedule}"
    by (simp add: len set3 inj_on_def order_id_def sample_uuid_def)
  have bad: "\<not> confirmation_recorded flaky_net (sample_uuid 1)"
    by (simp add: confirmation_recorded_def flaky_net_def sample_uuid_def)
  have good: "confirmation_recorded flaky_net (sample_uuid 2)"
    by (simp add: confirmation_recorded_def flaky_net_def sample_uuid_def)
  note inst = execute_schedule_isolates_failures [of flaky_net sample_uuid int sample_schedule]
  from inst have s: "searched (execute_schedule flaky_net sample_uuid int sample_schedule new_orchestrator)
        = map sample_uuid [0..<length sample_schedule]"
    by (rule conjunct1)
  have ups: "map sample_uuid [0..<length sample_schedule]
        = [''aaaaaaaa-aaaa-4aaa'', ''bbbbbbbb-bbbb-4bbb'', ''cccccccc-cccc-4ccc'']"
    by (simp add: len sample_uuid_def upt_rec numeral_3_eq_3)
  from inst inj have t: "\<forall>i<length sample_schedule.
          active_transactions (execute_schedule flaky_net sample_uuid int sample_schedule new_orchestrator)
            (order_id (sample_uuid i))
          = (if confirmation_recorded flaky_net (sample_uuid i)
             then Some (confirmed_transaction sample_uuid int i (sample_schedule ! i))
             else None)"
    by blast
  from t bad len have t1: "active_transactions
        (execute_schedule flaky_net sample_uuid int sample_schedule new_orchestrator)
        (order_id (sample_uuid 1)) = None"
    by simp
  from t good len have t2: "active_transactions
        (execute_schedule flaky_net sample_uuid int sample_schedule new_orchestrator)
        (order_id (sample_uuid 2))
        = Some (confirmed_transaction sample_uuid int 2 (sample_schedule ! 2))"
    by simp
  have nth2: "sample_schedule ! 2 = immediate_assignment rigid_job ''scotland''"
    by (simp add: sample_schedule_def)
  from inj bad s ups t1 t2 nth2 show ?thesis by simp
qed

text \<open>
  Claim C7 at a failing input: a schedule of one entry whose select request is answered
  with an error (a response with an \<open>error\<close> key, as \<open>_make_request\<close> returns for a
  non-200 status), the other three requests being answered without error. The failure does
  not abort the transaction: the init and the confirm are still sent and the transaction is
  recorded as \<open>CONFIRMED\<close>. The search and the confirm replies are checked for an error,
  the select and the init replies are not.
\<close>

theorem select_error_is_not_aborted:
  "select_rejecting_net (sample_uuid 0) Select = ErrorReply ''500''
   \<and> requests_sent (execute_schedule select_rejecting_net sample_uuid int
         [immediate_assignment sample_job ''north''] new_orchestrator)
       = [(Search, ''aaaaaaaa-aaaa-4aaa''), (Select, ''aaaaaaaa-aaaa-4aaa''),
          (Init, ''aaaaaaaa-aaaa-4aaa''), (Confirm, ''aaaaaaaa-aaaa-4aaa'')]
   \<and> active_transactions (execute_schedule select_rejecting_net sample_uuid int
         [immediate_assignment sample_job ''north''] new_orchestrator) ''order_aaaaaaaa-aaa''
       = Some \<lparr>t_job = sample_job, t_transaction_id = ''aaaaaaaa-aaaa-4aaa'',
               t_scheduled = immediate_assignment sample_job ''north'',
               t_status = ''CONFIRMED'', t_confirmed_at = 0\<rparr>"
  by (simp add: execute_schedule_def execute_single_job_def select_rejecting_net_def
        sample_uuid_def send_def order_id_def new_orchestrator_def immediate_assignment_def
        Let_def)

section \<open>Properties of the lifecycle queues\<close>

text \<open>
  Claim C6 at a failing input. A pending job is sent straight to \<open>completed\<close>: its status
  changes although no queue takes it, so it stays in the pending queue with the status
  \<open>completed\<close>; a second call sets the terminal status back to \<open>pending\<close>; and after
  \<open>running\<close> has been assigned in the same way, the regular step to \<open>completed\<close> raises
  \<open>ValueError\<close> with the status already overwritten.
\<close>

theorem update_job_status_skips_lifecycle:
  "status sample_job = ''pending''
   \<and> update_job_status one_pending ''job_00001'' ''completed''
       = (new_monitor\<lparr>pending_jobs := [sample_job\<lparr>status := ''completed''\<rparr>]\<rparr>, None)
   \<and> update_job_status (new_monitor\<lparr>pending_jobs := [sample_job\<lparr>status := ''completed''\<rparr>]\<rparr>)
         ''job_00001'' ''pending''
       = (one_pending, None)
   \<and> update_job_status one_pending ''job_00001'' ''running''
       = (new_monitor\<lparr>pending_jobs := [sample_job\<lparr>status := ''running''\<rparr>]\<rparr>, None)
   \<and> update_job_status (new_monitor\<lparr>pending_jobs := [sample_job\<lparr>status := ''running''\<rparr>]\<rparr>)
         ''job_00001'' ''completed''
       = (new_monitor\<lparr>pending_jobs := [sample_job\<lparr>status := ''completed''\<rparr>]\<rparr>, Some ValueError)"
  by (simp add: update_job_status_def move_between_queues_def find_job_def py_remove_def
        one_pending_def new_monitor_def sample_job_def)

section \<open>Properties of the window forecaster\<close>

text \<open>
  Claim C5 at a failing input: a one-hour job, a horizon of two hours and a forecast with
  two hours for each region, the second hour being the cheap and clean one. The claim's
  ranking has the windows starting at hour 1 (since \<open>1 + 1 \<le> 2\<close>) and puts two of them
  first; the loop of the source stops at \<open>range(2 - 1)\<close> and returns the three windows
  starting at hour 0.
\<close>

theorem heuristic_forecast_misses_last_window:
  "map_sum id (map (\<lambda>w. (w_region w, start_hour w, score w)))
       (heuristic_forecast no_rnd one_hour_job sample_forecast 2)
     = Inr [(''scotland'', 0, 67 / 120), (''north'', 0, 17 / 20), (''south'', 0, 73 / 60)]
   \<and> spec_rank_windows sample_prices sample_carbons 1 2
     = [(''scotland'', 1, 9 / 40), (''south'', 1, 9 / 20), (''scotland'', 0, 67 / 120)]"
proof -
  have code: "map_sum id (map (\<lambda>w. (w_region w, start_hour w, score w)))
       (heuristic_forecast no_rnd one_hour_job sample_forecast 2)
     = Inr [(''scotland'', 0, 67 / 120), (''north'', 0, 17 / 20), (''south'', 0, 73 / 60)]"
    by (simp add: heuristic_forecast_def window_at_def py_slice_def clip_index_def py_int_def
          forecast_regions_def one_hour_job_def sample_job_def sample_forecast_def
          sample_prices_def sample_carbons_def no_rnd_def Let_def)
  have hours: "[0..<Suc 2 - 1] = [0, Suc 0]"
    by (simp add: upt_rec)
  have spec: "spec_rank_windows sample_prices sample_carbons 1 2
     = [(''scotland'', 1, 9 / 40), (''south'', 1, 9 / 20), (''scotland'', 0, 67 / 120)]"
    unfolding spec_rank_windows_def hours
    by (simp add: spec_score_def spec_mean_def series_of_def forecast_regions_def
          sample_prices_def sample_carbons_def)
  from code spec show ?thesis by (rule conjI)
qed

section \<open>Properties of the decision ledger\<close>


lemma dict_set_fresh: "k \<notin> fst ` set d \<Longrightarrow> dict_set k v d = d @ [(k, v)]"
  by (induction d) auto

lemma dict_del_fresh: "k \<notin> fst ` set d \<Longrightarrow> dict_del k d = d"
  by (induction d) (auto simp: dict_del_def)

lemma dict_del_append: "dict_del k (d @ e) = dict_del k d @ dict_del k e"
  by (simp add: dict_del_def)

lemma dict_set_append: "k \<in> fst ` set d \<Longrightarrow> dict_set k v (d @ e) = dict_set k v d @ e"
  by (induction d) auto

lemma dict_set_keys: "k \<in> fst ` set d \<Longrightarrow> map fst (dict_set k v d) = map fst d"
  by (induction d) auto

lemma map_of_dict_set: "map_of (dict_set k v d) = (map_of d)(k \<mapsto> v)"
  by (induction d) (auto simp: fun_eq_iff)

lemma map_of_canon_values:
  "map_of (map (\<lambda>kv. (fst kv, canon (snd kv))) d) k = map_option canon (map_of d k)"
  by (induction d) auto

lemma keys_canon_values: "map fst (map (\<lambda>kv. (fst kv, canon (snd kv))) d) = map fst d"
  by (induction d) auto

lemma distinct_keys_insort:
  "distinct (map fst (insort_key fst x xs)) \<longleftrightarrow> fst x \<notin> fst ` set xs \<and> distinct (map fst xs)"
  by (induction xs) (auto simp: set_insort_key)

lemma distinct_keys_sort:
  "distinct (map fst (sort_key fst xs)) \<longleftrightarrow> distinct (map fst xs)"
  by (induction xs) (auto simp: distinct_keys_insort)

lemma map_of_sort_key:
  assumes "distinct (map fst xs)"
  shows "map_of (sort_key fst xs) = map_of xs"
proof (rule ext)
  fix k
  have d: "distinct (map fst (sort_key fst xs))"
    using assms by (simp add: distinct_keys_sort)
  show "map_of (sort_key fst xs) k = map_of xs k"
  proof (cases "map_of xs k")
    case None
    then have "k \<notin> fst ` set xs" by (simp add: map_of_eq_None_iff)
    then have "k \<notin> fst ` set (sort_key fst xs)" by simp
    then have "map_of (sort_key fst xs) k = None" by (simp only: map_of_eq_None_iff not_False_eq_True)
    with None show ?thesis by simp
  next
    case (Some v)
    then have "(k, v) \<in> set (sort_key fst xs)" using assms by simp
    then show ?thesis using d Some by simp
  qed
qed

lemma canon_sorted_same:
  "wf_json v \<Longrightarrow> keys_sorted (canon v) \<and> same_content v (canon v)"
proof (induction v rule: canon.induct)
  case (1 vs)
  then show ?case
    by (auto simp: list_all2_conv_all_nth)
next
  case (2 kvs)
  let ?cn = "\<lambda>kv. (fst kv, canon (snd kv))"
  from "2.prems" have dist: "distinct (map fst kvs)"
    and wf: "\<And>kv. kv \<in> set kvs \<Longrightarrow> wf_json (snd kv)"
    by auto
  have ih: "\<And>kv. kv \<in> set kvs \<Longrightarrow> keys_sorted (canon (snd kv)) \<and> same_content (snd kv) (canon (snd kv))"
    using "2.IH" wf by blast
  have d1: "distinct (map fst (map ?cn kvs))"
    using dist by (simp only: keys_canon_values)
  have "sorted (map fst (sort_key fst (map ?cn kvs)))"
    by (rule sorted_sort_key)
  moreover have "distinct (map fst (sort_key fst (map ?cn kvs)))"
    using d1 by (simp only: distinct_keys_sort)
  ultimately have s: "sorted_wrt (<) (map fst (sort_key fst (map ?cn kvs)))"
    by (simp add: strict_sorted_iff)
  have n: "\<forall>kv\<in>set (sort_key fst (map ?cn kvs)). keys_sorted (snd kv)"
    using ih by auto
  have c: "\<forall>kv\<in>set kvs. case map_of (sort_key fst (map ?cn kvs)) (fst kv) of
                               None \<Rightarrow> False
                             | Some w \<Rightarrow> same_content (snd kv) w"
  proof
    fix kv assume kv: "kv \<in> set kvs"
    then have "map_of kvs (fst kv) = Some (snd kv)"
      using dist by simp
    then have "map_of (sort_key fst (map ?cn kvs)) (fst kv) = Some (canon (snd kv))"
      by (simp add: map_of_sort_key [OF d1] map_of_canon_values)
    with ih [OF kv] show "case map_of (sort_key fst (map ?cn kvs)) (fst kv) of
                               None \<Rightarrow> False
                             | Some w \<Rightarrow> same_content (snd kv) w"
      by simp
  qed
  from s n c show ?case by simp
qed simp_all


lemma add_to_region_keys:
  "fst ` set (add_to_region s d) = insert (region s) (fst ` set d)"
  by (induction s d rule: add_to_region.induct) auto

lemma add_to_region_distinct:
  "distinct (map fst d) \<Longrightarrow> distinct (map fst (add_to_region s d))"
proof (induction s d rule: add_to_region.induct)
  case (1 s)
  show ?case by simp
next
  case (2 s r st d)
  then show ?case
    using add_to_region_keys [of s d] by (auto simp: image_iff)
qed

lemma regions_distinct:
  "distinct (map fst d) \<Longrightarrow> distinct (map fst (foldl (\<lambda>d s. add_to_region s d) d schedule))"
  by (induction schedule arbitrary: d) (simp_all add: add_to_region_distinct)

lemma regional_distribution_wf:
  "wf_json (JObj (calculate_regional_distribution schedule))"
proof -
  have "map fst (calculate_regional_distribution schedule)
          = map fst (foldl (\<lambda>d s. add_to_region s d) [] schedule)"
    by (simp add: calculate_regional_distribution_def case_prod_unfold)
  then have "distinct (map fst (calculate_regional_distribution schedule))"
    using regions_distinct [of "[]" schedule] by simp
  moreover have "\<forall>kv\<in>set (calculate_regional_distribution schedule). wf_json (snd kv)"
    by (auto simp: calculate_regional_distribution_def)
  ultimately show ?thesis by simp
qed

lemma entry_wf: "wf_json (JObj (decision_entry fmt st jobs schedule gs clock))"
  using regional_distribution_wf [of schedule]
  by (simp add: decision_entry_def Let_def grid_state_summary_def)
     (auto simp: job_summary_def schedule_summary_def)


lemma canon_eq_same_content:
  "wf_json v \<Longrightarrow> wf_json v' \<Longrightarrow> canon v = canon v' \<Longrightarrow> same_content v v'"
proof (induction v arbitrary: v' rule: canon.induct)
  case (1 vs)
  then obtain ws where v': "v' = JArr ws"
    by (cases v') auto
  with "1.prems" have eq: "map canon vs = map canon ws"
    and wfs: "\<forall>v\<in>set vs. wf_json v" and wfw: "\<forall>w\<in>set ws. wf_json w"
    by auto
  from eq have len: "length vs = length ws"
    by (rule map_eq_imp_length_eq)
  have "same_content (vs ! i) (ws ! i)" if i: "i < length vs" for i
  proof -
    from eq have "map canon vs ! i = map canon ws ! i" by simp
    with i len have "canon (vs ! i) = canon (ws ! i)" by simp
    moreover have "vs ! i \<in> set vs" "ws ! i \<in> set ws"
      using i len by simp_all
    ultimately show ?thesis
      using "1.IH" wfs wfw by blast
  qed
  with len v' show ?case
    by (simp add: list_all2_conv_all_nth)
next
  case (2 kvs)
  let ?cn = "\<lambda>kv. (fst kv, canon (snd kv))"
  from "2.prems" obtain kws where v': "v' = JObj kws"
    by (cases v') auto
  with "2.prems" have eq: "sort_key fst (map ?cn kvs) = sort_key fst (map ?cn kws)"
    and dk: "distinct (map fst kvs)" and dw: "distinct (map fst kws)"
    and wfk: "\<forall>kv\<in>set kvs. wf_json (snd kv)" and wfw: "\<forall>kv\<in>set kws. wf_json (snd kv)"
    by auto
  have d1: "distinct (map fst (map ?cn kvs))"
    using dk by (simp only: keys_canon_values)
  have d2: "distinct (map fst (map ?cn kws))"
    using dw by (simp only: keys_canon_values)
  from eq have "length (sort_key fst (map ?cn kvs)) = length (sort_key fst (map ?cn kws))"
    by simp
  then have len: "length kvs = length kws"
    by simp
  have maps: "map_of (map ?cn kvs) = map_of (map ?cn kws)"
    using map_of_sort_key [OF d1] map_of_sort_key [OF d2] eq by simp
  have "case map_of kws (fst kv) of None \<Rightarrow> False | Some w \<Rightarrow> same_content (snd kv) w"
    if kv: "kv \<in> set kvs" for kv
  proof -
    from kv dk have "map_of kvs (fst kv) = Some (snd kv)" by simp
    then have "map_of (map ?cn kvs) (fst kv) = Some (canon (snd kv))"
      by (simp add: map_of_canon_values)
    with maps have "map_option canon (map_of kws (fst kv)) = Some (canon (snd kv))"
      by (simp add: map_of_canon_values)
    then obtain w where w: "map_of kws (fst kv) = Some w" and cw: "canon w = canon (snd kv)"
      by auto
    from w have "(fst kv, w) \<in> set kws" by (rule map_of_SomeD)
    with wfw have "wf_json w" by force
    with "2.IH" [OF kv] wfk kv cw have "same_content (snd kv) w" by simp
    with w show ?thesis by simp
  qed
  with len v' show ?case by simp
qed (case_tac v'; simp)+

lemma entry_keys:
  "map fst (decision_entry fmt st jobs schedule gs clock) =
     [''timestamp'', ''decision_id'', ''jobs_count'', ''scheduled_count'', ''grid_state'',
      ''jobs_summary'', ''schedule'', ''metrics'', ''regional_distribution'']"
  by (simp add: decision_entry_def Let_def)

lemma hash_changes_with_field:
  assumes dist: "distinct (map fst d)" and k: "map_of d k = Some v"
    and ne: "canon v' \<noteq> canon v"
  shows "calculate_hash (JObj (dict_set k v' d)) \<noteq> calculate_hash (JObj d)"
proof
  let ?cn = "\<lambda>kv. (fst kv, canon (snd kv))"
  assume "calculate_hash (JObj (dict_set k v' d)) = calculate_hash (JObj d)"
  then have eq: "sort_key fst (map ?cn (dict_set k v' d)) = sort_key fst (map ?cn d)"
    by (simp add: calculate_hash_def)
  from k have kin: "k \<in> fst ` set d"
    by (rule map_of_SomeD [THEN imageI [where f = fst], simplified])
  have d1: "distinct (map fst (map ?cn d))"
    using dist by (simp only: keys_canon_values)
  have d2: "distinct (map fst (map ?cn (dict_set k v' d)))"
    using dist kin by (simp only: keys_canon_values dict_set_keys)
  have "map_of (map ?cn (dict_set k v' d)) = map_of (map ?cn d)"
    using map_of_sort_key [OF d1] map_of_sort_key [OF d2] eq by simp
  then have "map_of (map ?cn (dict_set k v' d)) k = map_of (map ?cn d) k" by simp
  then have "canon v' = canon v"
    using k by (simp add: map_of_canon_values map_of_dict_set)
  with ne show False by simp
qed


lemma stored_record:
  "decision_log (fst (log_decision fmt st jobs schedule gs clock))
     = decision_log st @
       [JObj (decision_entry fmt st jobs schedule gs clock
              @ [(''hash'', JHex (calculate_hash (JObj (decision_entry fmt st jobs schedule gs clock))))])]"
proof -
  have "''hash'' \<notin> fst ` set (decision_entry fmt st jobs schedule gs clock)"
    by (simp only: set_map [symmetric] entry_keys) simp
  then show ?thesis
    by (simp add: log_decision_def Let_def dict_set_fresh)
qed

text \<open>
  Claim C1. The record that \<open>log_decision\<close> appends to the decision log carries, under
  the key \<open>hash\<close>, the SHA-256 digest of the serialization of the record without that
  key, all other fields included and the keys of every dict in sorted order; hashing the
  record with the \<open>hash\<close> field taken out gives the stored value again. Every other field
  is covered: putting a value of different content under any other key of the record
  changes the recomputed hash.
\<close>

theorem ledger_hash_reproducible:
  "\<exists>rec h t. decision_log (fst (log_decision fmt st jobs schedule gs clock))
              = decision_log st @ [JObj rec]
        \<and> map_of rec ''hash'' = Some (JHex h)
        \<and> h = SHA256 t \<and> keys_sorted t \<and> same_content (JObj (dict_del ''hash'' rec)) t
        \<and> calculate_hash (JObj (dict_del ''hash'' rec)) = h
        \<and> (\<forall>k v v'. k \<noteq> ''hash'' \<and> map_of rec k = Some v \<and> wf_json v'
                       \<and> \<not> same_content v v'
              \<longrightarrow> calculate_hash (JObj (dict_del ''hash'' (dict_set k v' rec))) \<noteq> h)"
proof -
  define entry where "entry = decision_entry fmt st jobs schedule gs clock"
  define h where "h = calculate_hash (JObj entry)"
  define rec where "rec = entry @ [(''hash'', JHex h)]"
  have keys: "map fst entry =
     [''timestamp'', ''decision_id'', ''jobs_count'', ''scheduled_count'', ''grid_state'',
      ''jobs_summary'', ''schedule'', ''metrics'', ''regional_distribution'']"
    unfolding entry_def by (rule entry_keys)
  have fresh: "''hash'' \<notin> fst ` set entry"
    by (simp only: set_map [symmetric] keys) simp
  have dist: "distinct (map fst entry)"
    by (simp only: keys) simp
  have wf: "wf_json (JObj entry)"
    unfolding entry_def by (rule entry_wf)
  have log: "decision_log (fst (log_decision fmt st jobs schedule gs clock))
              = decision_log st @ [JObj rec]"
    unfolding rec_def h_def entry_def by (rule stored_record)
  have none: "map_of entry ''hash'' = None"
    using fresh by (simp only: map_of_eq_None_iff not_False_eq_True)
  have stored: "map_of rec ''hash'' = Some (JHex h)"
    by (simp add: rec_def map_add_def none)
  have strip: "dict_del ''hash'' rec = entry"
    using fresh by (simp add: rec_def dict_del_append dict_del_fresh) (simp add: dict_del_def)
  have again: "calculate_hash (JObj (dict_del ''hash'' rec)) = h"
    by (simp only: strip h_def)
  have digest: "h = SHA256 (canon (JObj entry))"
    by (simp add: h_def calculate_hash_def)
  have sorted: "keys_sorted (canon (JObj entry))"
    and content: "same_content (JObj (dict_del ''hash'' rec)) (canon (JObj entry))"
    using canon_sorted_same [OF wf] by (simp_all only: strip)
  have tamper: "calculate_hash (JObj (dict_del ''hash'' (dict_set k v' rec))) \<noteq> h"
    if k: "k \<noteq> ''hash''" and v: "map_of rec k = Some v" and wf': "wf_json v'"
      and ne: "\<not> same_content v v'"
    for k v v'
  proof -
    from k v have ve: "map_of entry k = Some v"
      by (simp add: rec_def map_add_def split: option.splits if_splits)
    then have kv: "(k, v) \<in> set entry"
      by (rule map_of_SomeD)
    then have kin: "k \<in> fst ` set entry"
      by force
    from wf kv have "wf_json v"
      by force
    with wf' ne have cne: "canon v' \<noteq> canon v"
      using canon_eq_same_content [of v v'] by auto
    have "dict_set k v' rec = dict_set k v' entry @ [(''hash'', JHex h)]"
      using kin by (simp add: rec_def dict_set_append)
    moreover have "''hash'' \<notin> fst ` set (dict_set k v' entry)"
    proof -
      have "fst ` set (dict_set k v' entry) = set (map fst (dict_set k v' entry))"
        by simp
      also have "\<dots> = set (map fst entry)"
        using kin by (simp only: dict_set_keys)
      also have "\<dots> = fst ` set entry"
        by simp
      finally show ?thesis using fresh by simp
    qed
    ultimately have "dict_del ''hash'' (dict_set k v' rec) = dict_set k v' entry"
      by (simp add: dict_del_append dict_del_fresh) (simp add: dict_del_def)
    then show ?thesis
      using hash_changes_with_field [OF dist ve cne] by (simp add: h_def)
  qed
  have every: "\<forall>k v v'. k \<noteq> ''hash'' \<and> map_of rec k = Some v \<and> wf_json v'
                       \<and> \<not> same_content v v'
              \<longrightarrow> calculate_hash (JObj (dict_del ''hash'' (dict_set k v' rec))) \<noteq> h"
    using tamper by (intro allI impI) (elim conjE)
  show ?thesis
    by (rule exI [of _ rec], rule exI [of _ h], rule exI [of _ "canon (JObj entry)"])
       (rule conjI [OF log conjI [OF stored conjI [OF digest conjI [OF sorted
          conjI [OF content conjI [OF again every]]]]]])
qed

theorem ledger_hash_reproducible_witness:
  "\<exists>rec h. decision_log (fst (log_decision sample_format new_logger [sample_job]
                 [priced_assignment] sample_forecast int)) = [JObj rec]
     \<and> map_of rec ''hash'' = Some (JHex h)
     \<and> calculate_hash (JObj (dict_del ''hash'' rec)) = h
     \<and> ''jobs_count'' \<noteq> ''hash'' \<and> map_of rec ''jobs_count'' = Some (JInt 1)
     \<and> wf_json (JInt 2) \<and> \<not> same_content (JInt 1) (JInt 2)
     \<and> calculate_hash (JObj (dict_del ''hash'' (dict_set ''jobs_count'' (JInt 2) rec))) \<noteq> h"
proof -
  obtain rec h t where
    log: "decision_log (fst (log_decision sample_format new_logger [sample_job]
            [priced_assignment] sample_forecast int)) = decision_log new_logger @ [JObj rec]"
    and stored: "map_of rec ''hash'' = Some (JHex h)"
    and digest: "h = SHA256 t"
    and again: "calculate_hash (JObj (dict_del ''hash'' rec)) = h"
    and tamper: "\<forall>k v v'. k \<noteq> ''hash'' \<and> map_of rec k = Some v \<and> wf_json v'
                       \<and> \<not> same_content v v'
              \<longrightarrow> calculate_hash (JObj (dict_del ''hash'' (dict_set k v' rec))) \<noteq> h"
    using ledger_hash_reproducible [of sample_format new_logger "[sample_job]"
        "[priced_assignment]" sample_forecast int]
    by (elim exE conjE)
  have rec: "rec = decision_entry sample_format new_logger [sample_job] [priced_assignment]
                     sample_forecast int
              @ [(''hash'', JHex (calculate_hash (JObj (decision_entry sample_format new_logger
                     [sample_job] [priced_assignment] sample_forecast int))))]"
    using log stored_record [of sample_format new_logger "[sample_job]"
        "[priced_assignment]" sample_forecast int]
    by simp
  have count: "map_of rec ''jobs_count'' = Some (JInt 1)"
    by (simp only: rec) (simp add: decision_entry_def Let_def)
  have wf2: "wf_json (JInt 2)"
    by simp
  have ne: "\<not> same_content (JInt 1) (JInt 2)"
    by simp
  have key: "''jobs_count'' \<noteq> ''hash''"
    by simp
  from tamper key count wf2 ne
  have changed: "calculate_hash (JObj (dict_del ''hash'' (dict_set ''jobs_count'' (JInt 2) rec))) \<noteq> h"
    by (elim allE [of _ "''jobs_count''"] allE [of _ "JInt 1"] allE [of _ "JInt 2"]) simp
  have log': "decision_log (fst (log_decision sample_format new_logger [sample_job]
                 [priced_assignment] sample_forecast int)) = [JObj rec]"
    using log by (simp add: new_logger_def)
  show ?thesis
    by (rule exI [of _ rec], rule exI [of _ h])
       (rule conjI [OF log' conjI [OF stored conjI [OF again conjI [OF key conjI [OF count
          conjI [OF wf2 conjI [OF ne changed]]]]]]])
qed

end
